theory Spec2Isabelle
  imports Main "HOL-Library.Word"
begin

section \<open>GPU allocation regions: \<^verbatim>\<open>gpu_hsail_Tlab.hpp\<close>\<close>

text \<open>
  Addresses (\<open>HeapWord*\<close>) and \<open>size_t\<close> values are 64-bit words (an LP64 build);
  \<open>NULL\<close> is the word \<open>0\<close>. Pointer comparison is the unsigned order on words, and
  \<open>(long) p - (long) q\<close> stored into a \<open>size_t\<close> is word subtraction. A \<open>JavaThread*\<close>
  is an opaque thread identifier.
\<close>

type_synonym JavaThread = nat

definition LogHeapWordSize :: nat where
  "LogHeapWordSize = 3"

record HSAILTlabInfo =
  ti_start :: "64 word"
  ti_top :: "64 word"
  ti_end :: "64 word"
  ti_last_good_top :: "64 word"
  ti_original_top :: "64 word"
  ti_donor_thread :: JavaThread
  ti_alloc_info :: nat

text \<open>
  \<open>HSAILTlabInfo::initialize\<close> assigns six of the seven fields; \<open>_last_good_top\<close> is the
  one it leaves alone.
\<close>

definition initialize ::
  "HSAILTlabInfo \<Rightarrow> 64 word \<Rightarrow> 64 word \<Rightarrow> 64 word \<Rightarrow> JavaThread \<Rightarrow> nat \<Rightarrow> HSAILTlabInfo" where
  "initialize r start top' e donorThread allocInfo =
     r\<lparr>ti_start := start,
       ti_original_top := top',
       ti_top := top',
       ti_end := e,
       ti_donor_thread := donorThread,
       ti_alloc_info := allocInfo\<rparr>"

text \<open>
  The part of a donor thread's \<open>ThreadLocalAllocBuffer\<close> that this file reads.
\<close>

record ThreadLocalAllocBuffer =
  tlab_start :: "64 word"
  tlab_top :: "64 word"
  tlab_end :: "64 word"

text \<open>
  Calls that leave this class: into a donor thread's allocation buffer and into the heap.
\<close>

datatype vm_call =
    Tlab_clear_before_allocation JavaThread
  | Tlab_fill JavaThread "64 word" "64 word" "64 word"
  | Tlab_make_parsable JavaThread bool
  | Heap_allocate_new_tlab "64 word"
  | Copy_zero_to_words "64 word" "64 word"

text \<open>The lines \<open>postKernelCleanup\<close> prints when \<open>TraceGPUInteraction\<close> is set.\<close>

datatype tty_line =
    Tty_pool_overflowed "32 word"
  | Tty_postprocess nat "64 word" "64 word" "64 word" "64 word"
  | Tty_tlab_overflowed nat JavaThread "64 word" "64 word"
  | Tty_bytes_allocated "64 word" nat "64 word" "64 word" "64 word"
  | Tty_total_bytes "64 word"

text \<open>
  The virtual machine around the class: every thread's allocation buffer, the heap
  (of an abstract type \<open>'h\<close>), the calls made so far and the lines printed so far, both
  in order, and the overflow count of \<open>Hsail::kernelStats\<close>, the statistic that the
  commented-out call at the end of \<open>postKernelCleanup\<close> would increment.
\<close>

record 'h vm_state =
  vm_tlabs :: "JavaThread \<Rightarrow> ThreadLocalAllocBuffer"
  vm_heap :: 'h
  vm_calls :: "vm_call list"
  vm_tty :: "tty_line list"
  kernelStats_overflows :: nat

text \<open>
  The runtime the class is compiled against. None of it is in these two files, so the
  flags, the constants and the operations of \<open>ThreadLocalAllocBuffer\<close> and of the heap
  are parameters.
\<close>

record 'h runtime =
  TraceGPUInteraction :: bool
  ZeroTLAB :: bool
  alignment_reserve :: "64 word"
  alignment_reserve_in_bytes :: "64 word"
  tlab_fill :: "ThreadLocalAllocBuffer \<Rightarrow> 64 word \<Rightarrow> 64 word \<Rightarrow> 64 word \<Rightarrow> ThreadLocalAllocBuffer"
  tlab_make_parsable :: "ThreadLocalAllocBuffer \<Rightarrow> bool \<Rightarrow> ThreadLocalAllocBuffer"
  tlab_clear_before_allocation :: "ThreadLocalAllocBuffer \<Rightarrow> ThreadLocalAllocBuffer"
  tlab_compute_size :: "'h \<Rightarrow> ThreadLocalAllocBuffer \<Rightarrow> 64 word \<Rightarrow> 64 word"
  unsafe_max_tlab_alloc :: "'h \<Rightarrow> JavaThread \<Rightarrow> 64 word"
  allocate_new_tlab :: "'h \<Rightarrow> 64 word \<Rightarrow> 64 word \<times> 'h"

definition print_cr :: "'h runtime \<Rightarrow> tty_line \<Rightarrow> 'h vm_state \<Rightarrow> 'h vm_state" where
  "print_cr rt l vm = (if TraceGPUInteraction rt then vm\<lparr>vm_tty := vm_tty vm @ [l]\<rparr> else vm)"

definition fill :: "'h runtime \<Rightarrow> JavaThread \<Rightarrow> 64 word \<Rightarrow> 64 word \<Rightarrow> 64 word \<Rightarrow> 'h vm_state \<Rightarrow> 'h vm_state" where
  "fill rt t start top' new_size vm =
     vm\<lparr>vm_tlabs := (vm_tlabs vm)(t := tlab_fill rt (vm_tlabs vm t) start top' new_size),
        vm_calls := vm_calls vm @ [Tlab_fill t start top' new_size]\<rparr>"

definition make_parsable :: "'h runtime \<Rightarrow> JavaThread \<Rightarrow> bool \<Rightarrow> 'h vm_state \<Rightarrow> 'h vm_state" where
  "make_parsable rt t retire vm =
     vm\<lparr>vm_tlabs := (vm_tlabs vm)(t := tlab_make_parsable rt (vm_tlabs vm t) retire),
        vm_calls := vm_calls vm @ [Tlab_make_parsable t retire]\<rparr>"

definition clear_before_allocation :: "'h runtime \<Rightarrow> JavaThread \<Rightarrow> 'h vm_state \<Rightarrow> 'h vm_state" where
  "clear_before_allocation rt t vm =
     vm\<lparr>vm_tlabs := (vm_tlabs vm)(t := tlab_clear_before_allocation rt (vm_tlabs vm t)),
        vm_calls := vm_calls vm @ [Tlab_clear_before_allocation t]\<rparr>"

text \<open>
  \<open>HSAILAllocationInfo\<close>. The arena \<open>_tlab_infos_pool_start\<close> is the list
  \<open>tlab_infos_pool\<close>: a pointer into it is a slot number, \<open>_tlab_infos_pool_start\<close> is
  slot \<open>0\<close> and \<open>_tlab_infos_pool_end\<close> is slot \<open>length tlab_infos_pool\<close>. The cursor
  \<open>_tlab_infos_pool_next\<close> is advanced by the GPU and can pass the end. An entry of
  \<open>_cur_tlab_infos\<close> is \<open>None\<close> until it is assigned.
\<close>

record HSAILAllocationInfo =
  donorThreads :: "JavaThread list"
  num_donor_threads :: nat
  tlab_align_reserve_bytes :: "64 word"
  cur_tlab_infos :: "nat option list"
  tlab_infos_pool :: "HSAILTlabInfo list"
  tlab_infos_pool_next :: nat

text \<open>
  What C++ leaves undefined, or answers by stopping the VM, is a value of the model:
  \<open>guarantee\<close> failing, and a read or write of a slot that is not in the arena.
\<close>

datatype fault = Guarantee_failed | Out_of_arena nat

subsection \<open>postKernelCleanup\<close>

record 'h cleanup =
  c_info :: HSAILAllocationInfo
  c_vm :: "'h vm_state"
  anyOverflows :: bool
  bytesAllocated :: "64 word"

text \<open>
  The body of the loop for the slot \<open>i\<close> of the arena (lines 165 to 201). The pointer
  difference \<open>end - start\<close> counts heap words of 8 bytes: the byte difference shifted
  right by 3, which is exact on the word-aligned addresses of a heap.
\<close>

definition postprocess_tlabInfo :: "'h runtime \<Rightarrow> nat \<Rightarrow> 'h cleanup \<Rightarrow> 'h cleanup" where
  "postprocess_tlabInfo rt i c =
     (let info = c_info c;
          tlabInfo = tlab_infos_pool info ! i;
          vm1 = print_cr rt (Tty_postprocess i (ti_start tlabInfo) (ti_top tlabInfo)
                  (ti_end tlabInfo) (ti_last_good_top tlabInfo)) (c_vm c);
          donorThread = ti_donor_thread tlabInfo
      in if ti_start tlabInfo \<noteq> 0 then
           let overflowed = (ti_top tlabInfo > ti_end tlabInfo);
               vm2 = (if overflowed
                      then print_cr rt (Tty_tlab_overflowed i donorThread
                             (ti_top tlabInfo - ti_last_good_top tlabInfo)
                             (ti_last_good_top tlabInfo)) vm1
                      else vm1);
               tlabInfo' = (if overflowed
                            then tlabInfo\<lparr>ti_top := ti_last_good_top tlabInfo\<rparr>
                            else tlabInfo);
               vm3 = fill rt donorThread (ti_start tlabInfo') (ti_top tlabInfo')
                       (signed_drop_bit LogHeapWordSize (ti_end tlabInfo' - ti_start tlabInfo')
                          + alignment_reserve rt) vm2;
               vm4 = (if overflowed then make_parsable rt donorThread True vm3 else vm3);
               delta = ti_top tlabInfo' - ti_original_top tlabInfo';
               vm5 = print_cr rt (Tty_bytes_allocated delta i (ti_start tlabInfo')
                       (ti_top tlabInfo') (ti_end tlabInfo')) vm4
           in c\<lparr>c_info := info\<lparr>tlab_infos_pool := (tlab_infos_pool info)[i := tlabInfo']\<rparr>,
                c_vm := vm5,
                anyOverflows := (anyOverflows c \<or> overflowed),
                bytesAllocated := bytesAllocated c + delta\<rparr>
         else c\<lparr>c_vm := vm1\<rparr>)"

text \<open>
  The loop \<open>for (tlabInfo = _tlab_infos_pool_start; tlabInfo < _tlab_infos_pool_next;
  tlabInfo++)\<close>, from the slot \<open>i\<close> on. Dereferencing a slot at or past the end of the
  arena is the fault \<open>Out_of_arena\<close>.
\<close>

function cleanup_loop :: "'h runtime \<Rightarrow> nat \<Rightarrow> 'h cleanup \<Rightarrow> fault + 'h cleanup" where
  "cleanup_loop rt i c =
     (if i < tlab_infos_pool_next (c_info c) then
        (if i < length (tlab_infos_pool (c_info c))
         then cleanup_loop rt (Suc i) (postprocess_tlabInfo rt i c)
         else Inl (Out_of_arena i))
      else Inr c)"
  by pat_completeness auto

termination
  by (relation "measure (\<lambda>(rt, i, c). tlab_infos_pool_next (c_info c) - i)")
     (auto simp: postprocess_tlabInfo_def Let_def)

text \<open>
  \<open>postKernelCleanup\<close>. The amount of a pool overflow is the difference of the two
  pointers, in slots, stored in a C \<open>int\<close>: a 32-bit word. The body of the last
  \<open>if (anyOverflows)\<close> is a comment, so both of its branches leave the machine as it is.
\<close>

definition postKernelCleanup ::
  "'h runtime \<Rightarrow> HSAILAllocationInfo \<Rightarrow> 'h vm_state \<Rightarrow> fault + 'h cleanup" where
  "postKernelCleanup rt info vm =
     (let pool_end = length (tlab_infos_pool info);
          pool_overflow = (tlab_infos_pool_next info > pool_end);
          vm1 = (if pool_overflow
                 then print_cr rt (Tty_pool_overflowed
                        (of_nat (tlab_infos_pool_next info - pool_end))) vm
                 else vm);
          info1 = (if pool_overflow then info\<lparr>tlab_infos_pool_next := pool_end\<rparr> else info)
      in case cleanup_loop rt 0
                \<lparr>c_info = info1, c_vm = vm1, anyOverflows = False, bytesAllocated = 0\<rparr> of
           Inl f \<Rightarrow> Inl f
         | Inr c \<Rightarrow>
             let vm2 = print_cr rt (Tty_total_bytes (bytesAllocated c)) (c_vm c);
                 vm3 = (if anyOverflows c then vm2 else vm2)
             in Inr (c\<lparr>c_vm := vm3\<rparr>))"

subsection \<open>What the cleanup does to one region\<close>

text \<open>
  Closed forms of what the body of the loop does with one region: whether it counts as
  overflowed, the region afterwards, its share of \<open>bytesAllocated\<close> and the calls made
  on the donor thread's buffer. They only serve to state the lemmas about the loop,
  which prove them of \<open>postprocess_tlabInfo\<close>.
\<close>

definition overflowed_region :: "HSAILTlabInfo \<Rightarrow> bool" where
  "overflowed_region r = (ti_start r \<noteq> 0 \<and> ti_end r < ti_top r)"

definition rolled_back :: "HSAILTlabInfo \<Rightarrow> HSAILTlabInfo" where
  "rolled_back r = (if overflowed_region r then r\<lparr>ti_top := ti_last_good_top r\<rparr> else r)"

definition region_delta :: "HSAILTlabInfo \<Rightarrow> 64 word" where
  "region_delta r =
     (if ti_start r \<noteq> 0 then ti_top (rolled_back r) - ti_original_top r else 0)"

definition region_calls :: "'h runtime \<Rightarrow> HSAILTlabInfo \<Rightarrow> vm_call list" where
  "region_calls rt r =
     (if ti_start r \<noteq> 0 then
        Tlab_fill (ti_donor_thread r) (ti_start r) (ti_top (rolled_back r))
          (signed_drop_bit LogHeapWordSize (ti_end r - ti_start r) + alignment_reserve rt)
        # (if overflowed_region r then [Tlab_make_parsable (ti_donor_thread r) True] else [])
      else [])"

subsection \<open>Construction\<close>

text \<open>
  \<open>getNewTlabForDonorThread(tlab, idx)\<close>; the buffer is named by its thread. It gives up,
  returning \<open>false\<close>, when the computed size is zero and when the heap returns \<open>NULL\<close>.
\<close>

definition getNewTlabForDonorThread ::
  "'h runtime \<Rightarrow> JavaThread \<Rightarrow> nat \<Rightarrow> 'h vm_state \<Rightarrow> bool \<times> 'h vm_state" where
  "getNewTlabForDonorThread rt t idx vm =
     (let vm1 = clear_before_allocation rt t vm;
          new_tlab_size = tlab_compute_size rt (vm_heap vm1) (vm_tlabs vm1 t) 0
      in if new_tlab_size = 0 then (False, vm1)
         else
           let r = allocate_new_tlab rt (vm_heap vm1) new_tlab_size;
               tlab_start = fst r;
               vm2 = vm1\<lparr>vm_heap := snd r,
                         vm_calls := vm_calls vm1 @ [Heap_allocate_new_tlab new_tlab_size]\<rparr>
           in if tlab_start = 0 then (False, vm2)
              else
                let vm3 = (if ZeroTLAB rt
                           then vm2\<lparr>vm_calls := vm_calls vm2
                                    @ [Copy_zero_to_words tlab_start new_tlab_size]\<rparr>
                           else vm2)
                in (True, fill rt t tlab_start tlab_start new_tlab_size vm3))"

text \<open>
  The capacity of the arena (lines 86 to 96), in \<open>size_t\<close> arithmetic; \<open>n\<close> is the
  number of donor threads, a positive \<open>jint\<close>, and \<open>64 * n\<close> is taken not to overflow it.
\<close>

definition max_tlab_infos :: "64 word \<Rightarrow> 64 word \<Rightarrow> nat \<Rightarrow> nat" where
  "max_tlab_infos new_tlab_size heap_bytes_free n =
     (if new_tlab_size \<noteq> 0
      then min (unat heap_bytes_free div unat new_tlab_size) (64 * n)
      else 8 * n)"

text \<open>
  The body of the second loop of the constructor for the donor thread \<open>i\<close> (lines 110
  to 140). The constructor's trace output is left out: it changes no state. Writing
  \<open>_tlab_infos_pool_start[i]\<close> when the arena has no slot \<open>i\<close> is the fault
  \<open>Out_of_arena\<close>.
\<close>

definition ctor_donor_step ::
  "'h runtime \<Rightarrow> nat \<Rightarrow> nat \<Rightarrow> HSAILAllocationInfo \<times> 'h vm_state
     \<Rightarrow> fault + HSAILAllocationInfo \<times> 'h vm_state" where
  "ctor_donor_step rt this i s =
     (let info = fst s;
          vm = snd s;
          donorThread = donorThreads info ! i;
          vm1 = (if tlab_end (vm_tlabs vm donorThread) = 0
                 then snd (getNewTlabForDonorThread rt donorThread i vm)
                 else vm);
          tlab = vm_tlabs vm1 donorThread
      in if i < length (tlab_infos_pool info)
         then Inr (info\<lparr>cur_tlab_infos := (cur_tlab_infos info)[i := Some i],
                        tlab_infos_pool := (tlab_infos_pool info)
                          [i := initialize (tlab_infos_pool info ! i)
                                  (tlab_start tlab) (tlab_top tlab) (tlab_end tlab)
                                  donorThread this]\<rparr>,
                   vm1)
         else Inl (Out_of_arena i))"

function ctor_loop ::
  "'h runtime \<Rightarrow> nat \<Rightarrow> nat \<Rightarrow> HSAILAllocationInfo \<times> 'h vm_state
     \<Rightarrow> fault + HSAILAllocationInfo \<times> 'h vm_state" where
  "ctor_loop rt this i s =
     (if i < num_donor_threads (fst s) then
        (case ctor_donor_step rt this i s of
           Inl f \<Rightarrow> Inl f
         | Inr s' \<Rightarrow> ctor_loop rt this (Suc i) s')
      else Inr s)"
  by pat_completeness auto
termination
  by (relation "measure (\<lambda>(rt, this, i, s). num_donor_threads (fst s) - i)")
     (auto simp: ctor_donor_step_def Let_def split: if_splits)

text \<open>
  The constructor, given the threads that \<open>donor_threads_jobj\<close> resolves to. \<open>this\<close> is
  the address of the object under construction and \<open>uninit\<close> is what the fresh arena
  holds, slot by slot, before anything is written to it.
\<close>

definition HSAILAllocationInfo_ctor ::
  "'h runtime \<Rightarrow> nat \<Rightarrow> (nat \<Rightarrow> HSAILTlabInfo) \<Rightarrow> JavaThread list \<Rightarrow> int \<Rightarrow> int
     \<Rightarrow> 'h vm_state \<Rightarrow> fault + HSAILAllocationInfo \<times> 'h vm_state" where
  "HSAILAllocationInfo_ctor rt this uninit donor_threads dimX allocBytesPerWorkitem vm =
     (let n = length donor_threads
      in if \<not> n > 0 then Inl Guarantee_failed
         else
           let donorThread = donor_threads ! 0;
               new_tlab_size = tlab_compute_size rt (vm_heap vm) (vm_tlabs vm donorThread) 0;
               heap_bytes_free = unsafe_max_tlab_alloc rt (vm_heap vm) donorThread;
               capacity = max_tlab_infos new_tlab_size heap_bytes_free n
           in ctor_loop rt this 0
                (\<lparr>donorThreads = donor_threads,
                  num_donor_threads = n,
                  tlab_align_reserve_bytes = alignment_reserve_in_bytes rt,
                  cur_tlab_infos = replicate n None,
                  tlab_infos_pool = map uninit [0..<capacity],
                  tlab_infos_pool_next = n\<rparr>, vm))"

subsection \<open>A small machine to run the definitions on\<close>

definition example_runtime :: "64 word runtime" where
  "example_runtime =
     \<lparr>TraceGPUInteraction = True,
      ZeroTLAB = False,
      alignment_reserve = 2,
      alignment_reserve_in_bytes = 16,
      tlab_fill = (\<lambda>t start top' new_size.
         \<lparr>tlab_start = start, tlab_top = top', tlab_end = start + push_bit 3 (new_size - 2)\<rparr>),
      tlab_make_parsable = (\<lambda>t retire.
         if tlab_end t \<noteq> 0 \<and> retire then \<lparr>tlab_start = 0, tlab_top = 0, tlab_end = 0\<rparr> else t),
      tlab_clear_before_allocation = (\<lambda>t.
         if tlab_end t \<noteq> 0 then \<lparr>tlab_start = 0, tlab_top = 0, tlab_end = 0\<rparr> else t),
      tlab_compute_size = (\<lambda>h t obj_size. 1000),
      unsafe_max_tlab_alloc = (\<lambda>h thread. 8000),
      allocate_new_tlab = (\<lambda>h new_size. (h, h + push_bit 3 new_size))\<rparr>"

definition example_vm :: "64 word vm_state" where
  "example_vm =
     \<lparr>vm_tlabs = (\<lambda>t. \<lparr>tlab_start = 0, tlab_top = 0, tlab_end = 0\<rparr>),
      vm_heap = 0x100000,
      vm_calls = [],
      vm_tty = [],
      kernelStats_overflows = 0\<rparr>"

definition overflowed_example :: HSAILTlabInfo where
  "overflowed_example =
     \<lparr>ti_start = 0x1000, ti_top = 0x1100, ti_end = 0x1080, ti_last_good_top = 0x1040,
      ti_original_top = 0x1000, ti_donor_thread = 7, ti_alloc_info = 0\<rparr>"

definition unprimed_example :: HSAILTlabInfo where
  "unprimed_example =
     \<lparr>ti_start = 0, ti_top = 0x40, ti_end = 0, ti_last_good_top = 0x20,
      ti_original_top = 0, ti_donor_thread = 7, ti_alloc_info = 0\<rparr>"

definition overflowed_info :: HSAILAllocationInfo where
  "overflowed_info =
     \<lparr>donorThreads = [7], num_donor_threads = 1, tlab_align_reserve_bytes = 16,
      cur_tlab_infos = [Some 0], tlab_infos_pool = [overflowed_example, unprimed_example],
      tlab_infos_pool_next = 4\<rparr>"

definition silent_runtime :: "64 word runtime" where
  "silent_runtime = example_runtime\<lparr>TraceGPUInteraction := False\<rparr>"

definition exhausted_runtime :: "64 word runtime" where
  "exhausted_runtime = example_runtime\<lparr>allocate_new_tlab := (\<lambda>h new_size. (0, h))\<rparr>"

definition uninit_example :: "nat \<Rightarrow> HSAILTlabInfo" where
  "uninit_example i =
     \<lparr>ti_start = 0xBAADF00D, ti_top = 0xBAADF00D, ti_end = 0xBAADF00D,
      ti_last_good_top = 0xBAADF00D, ti_original_top = 0xBAADF00D,
      ti_donor_thread = 0, ti_alloc_info = 0\<rparr>"

definition stale_info :: HSAILAllocationInfo where
  "stale_info =
     \<lparr>donorThreads = [7], num_donor_threads = 1, tlab_align_reserve_bytes = 16,
      cur_tlab_infos = [Some 0],
      tlab_infos_pool = [(initialize (uninit_example 0) 0x1000 0x1000 0x1080 7 0)\<lparr>ti_top := 0x1100\<rparr>],
      tlab_infos_pool_next = 1\<rparr>"

section \<open>The CUDA driver interface: \<^verbatim>\<open>gpu_ptx.cpp\<close>\<close>

text \<open>
  A C \<open>int\<close> is a 32-bit word, read as two's complement where the code compares it
  with zero; a \<open>jlong\<close>, a device pointer and a function address are 64-bit words. The
  driver's status \<open>GRAAL_CUDA_SUCCESS\<close> is declared in a header that is not among the
  sources; the code only compares a status with it, and it is taken as \<open>0\<close>.
\<close>

definition GRAAL_CUDA_SUCCESS :: "32 word" where
  "GRAAL_CUDA_SUCCESS = 0"

subsection \<open>Cores of a device\<close>





subsection \<open>Binding the driver library\<close>










subsection \<open>Running a kernel\<close>

text \<open>
  Modelled from the spec: the sizes \<open>T_INT_BYTE_SIZE\<close>, \<open>T_FLOAT_BYTE_SIZE\<close>,
  \<open>T_DOUBLE_BYTE_SIZE\<close>, \<open>T_LONG_BYTE_SIZE\<close> and \<open>T_OBJECT_BYTE_SIZE\<close> are declared outside
  these sources. The spec gives 4 bytes for an \<open>int\<close> and a \<open>float\<close>, 8 for a \<open>double\<close>
  and a \<open>long\<close>, and the width of a pointer for an object reference, 8 bytes here.
\<close>

definition T_INT_BYTE_SIZE :: nat where "T_INT_BYTE_SIZE = 4"
definition T_FLOAT_BYTE_SIZE :: nat where "T_FLOAT_BYTE_SIZE = 4"
definition T_DOUBLE_BYTE_SIZE :: nat where "T_DOUBLE_BYTE_SIZE = 8"
definition T_LONG_BYTE_SIZE :: nat where "T_LONG_BYTE_SIZE = 8"
definition T_OBJECT_BYTE_SIZE :: nat where "T_OBJECT_BYTE_SIZE = 8"

datatype BasicType =
    T_BOOLEAN | T_CHAR | T_FLOAT | T_DOUBLE | T_BYTE | T_SHORT | T_INT | T_LONG
  | T_OBJECT | T_ARRAY | T_VOID

datatype JavaValue = Jint "32 word" | Jfloat "32 word" | Jdouble "64 word" | Jlong "64 word"

text \<open>
  The driver during one execution: what each call answers, a status and, for
  \<open>cuMemAlloc\<close> and \<open>cuMemcpyDtoH\<close>, the pointer or the bytes written. Each of these
  calls is made at most once in an execution.
\<close>

record cuda_driver =
  cu_memalloc :: "32 word \<times> 64 word"
  cu_launch_kernel :: "32 word"
  cu_ctx_synchronize :: "32 word"
  cu_memcpy_dtoh :: "32 word \<times> 64 word"
  cu_memfree :: "32 word"
  cu_ctx_destroy :: "32 word"

text \<open>
  The driver calls an execution makes, in order: the size of an allocation, the block
  dimensions of a launch, and the device pointer and the byte count of a copy.
\<close>

datatype cuda_call =
    Call_memalloc "32 word"
  | Call_launch_kernel "32 word" "32 word" "32 word"
  | Call_ctx_synchronize
  | Call_memcpy_dtoh "64 word" nat
  | Call_memfree "64 word"
  | Call_ctx_destroy

fun is_memalloc :: "cuda_call \<Rightarrow> bool" where
  "is_memalloc (Call_memalloc n) = True"
| "is_memalloc c = False"

fun is_memfree :: "cuda_call \<Rightarrow> bool" where
  "is_memfree (Call_memfree p) = True"
| "is_memfree c = False"

fun is_memcpy_dtoh :: "cuda_call \<Rightarrow> bool" where
  "is_memcpy_dtoh (Call_memcpy_dtoh p n) = True"
| "is_memcpy_dtoh c = False"

datatype java_exception = NullPointerException | Exception string

record vm_execution =
  return_value :: "64 word"
  pending_exception :: "java_exception option"
  vm_result :: "64 word option"
  cuda_calls :: "cuda_call list"

definition throw_and_post_jvmti_exception ::
  "java_exception \<Rightarrow> 64 word option \<Rightarrow> cuda_call list \<Rightarrow> vm_execution" where
  "throw_and_post_jvmti_exception ex oop calls =
     \<lparr>return_value = 0, pending_exception = Some ex, vm_result = oop, cuda_calls = calls\<rparr>"

text \<open>
  \<open>execute_kernel_from_vm\<close>, from the test of the kernel on (lines 358 to 475); the
  dump of the buffer printed before it changes nothing. The result is the \<open>jlong\<close>
  returned, the exception posted on the thread, the object set with \<open>set_vm_result\<close>,
  and the driver calls made.
\<close>

definition execute_kernel_from_vm ::
  "cuda_driver \<Rightarrow> 64 word \<Rightarrow> 64 word \<Rightarrow> 32 word \<Rightarrow> 32 word \<Rightarrow> vm_execution" where
  "execute_kernel_from_vm drv kernel' parametersAndReturnValueBuffer
       parametersAndReturnValueBufferSize encodedReturnTypeSize =
     (if kernel' = 0 then throw_and_post_jvmti_exception NullPointerException None []
      else
        let isObjectReturn = (encodedReturnTypeSize <s 0);
            returnTypeSize = (if encodedReturnTypeSize <s 0 then - encodedReturnTypeSize
                              else encodedReturnTypeSize);
            device_return_value = snd (cu_memalloc drv);
            calls1 = (if returnTypeSize \<noteq> 0 then [Call_memalloc returnTypeSize] else [])
        in if returnTypeSize \<noteq> 0 \<and> fst (cu_memalloc drv) \<noteq> GRAAL_CUDA_SUCCESS
           then throw_and_post_jvmti_exception
                  (Exception ''[CUDA] Failed to allocate memory for return value pointer on device'')
                  None calls1
           else
             let calls2 = calls1 @ [Call_launch_kernel 1 1 1]
             in if cu_launch_kernel drv \<noteq> GRAAL_CUDA_SUCCESS
                then throw_and_post_jvmti_exception
                       (Exception ''[CUDA] Failed to launch kernel'') None calls2
                else
                  let calls3 = calls2 @ [Call_ctx_synchronize]
                  in if cu_ctx_synchronize drv \<noteq> GRAAL_CUDA_SUCCESS
                     then throw_and_post_jvmti_exception
                            (Exception ''[CUDA] Failed to synchronize launched kernel'') None calls3
                     else
                       let copy = (if isObjectReturn then Some T_OBJECT_BYTE_SIZE
                                   else if 0 <s returnTypeSize then Some T_LONG_BYTE_SIZE
                                   else None);
                           calls4 = calls3 @ (case copy of
                                      Some n \<Rightarrow> [Call_memcpy_dtoh device_return_value n]
                                    | None \<Rightarrow> [])
                       in if copy \<noteq> None \<and> fst (cu_memcpy_dtoh drv) \<noteq> GRAAL_CUDA_SUCCESS
                          then throw_and_post_jvmti_exception
                                 (Exception ''[CUDA] Failed to copy value from device argument'')
                                 None calls4
                          else
                            let oop = (if isObjectReturn then Some (snd (cu_memcpy_dtoh drv))
                                       else None);
                                primitiveReturnValue =
                                  (if \<not> isObjectReturn \<and> 0 <s returnTypeSize
                                   then snd (cu_memcpy_dtoh drv) else 0);
                                calls5 = calls4 @ (if returnTypeSize \<noteq> 0
                                                   then [Call_memfree device_return_value] else [])
                            in if returnTypeSize \<noteq> 0 \<and> cu_memfree drv \<noteq> GRAAL_CUDA_SUCCESS
                               then throw_and_post_jvmti_exception
                                      (Exception ''[CUDA] Failed to free device memory of return value'')
                                      oop calls5
                               else
                                 let calls6 = calls5 @ [Call_ctx_destroy]
                                 in if cu_ctx_destroy drv \<noteq> GRAAL_CUDA_SUCCESS
                                    then throw_and_post_jvmti_exception
                                           (Exception ''[CUDA] Failed to destroy context'')
                                           oop calls6
                                    else \<lparr>return_value = primitiveReturnValue,
                                           pending_exception = None,
                                           vm_result = oop,
                                           cuda_calls = calls6\<rparr>)"

text \<open>The part of \<open>PTXKernelArguments\<close> that \<open>execute_warp\<close> reads.\<close>

record PTXKernelArguments =
  ret_type :: BasicType
  dev_return_value :: "64 word"
  kernelArgBuffer :: "64 word"
  bufferOffset :: "32 word"

text \<open>
  The \<open>switch\<close> on the return type in \<open>execute_warp\<close>: the size of the copy from the
  device and the setter of \<open>ret\<close> that receives the bytes, or \<open>None\<close> for \<open>T_VOID\<close> and
  for the \<open>default\<close> case, which copy nothing.
\<close>

definition return_copy :: "BasicType \<Rightarrow> (nat \<times> (64 word \<Rightarrow> JavaValue)) option" where
  "return_copy t =
     (case t of
        T_INT \<Rightarrow> Some (T_INT_BYTE_SIZE, \<lambda>v. Jint (ucast v))
      | T_BOOLEAN \<Rightarrow> Some (T_INT_BYTE_SIZE, \<lambda>v. Jint (ucast v))
      | T_FLOAT \<Rightarrow> Some (T_FLOAT_BYTE_SIZE, \<lambda>v. Jfloat (ucast v))
      | T_DOUBLE \<Rightarrow> Some (T_DOUBLE_BYTE_SIZE, \<lambda>v. Jdouble v)
      | T_LONG \<Rightarrow> Some (T_LONG_BYTE_SIZE, \<lambda>v. Jlong v)
      | T_VOID \<Rightarrow> None
      | _ \<Rightarrow> None)"

record warp_execution =
  warp_ok :: bool
  warp_ret :: JavaValue
  warp_calls :: "cuda_call list"

text \<open>
  \<open>execute_warp\<close>: whether it succeeded, the value of \<open>ret\<close> afterwards and the driver
  calls made. The free of \<open>ptxka._dev_return_value\<close> stands after the \<open>switch\<close>, under no
  condition.
\<close>

definition execute_warp ::
  "cuda_driver \<Rightarrow> 32 word \<Rightarrow> 32 word \<Rightarrow> 32 word \<Rightarrow> 64 word \<Rightarrow> PTXKernelArguments
     \<Rightarrow> JavaValue \<Rightarrow> warp_execution" where
  "execute_warp drv dimX dimY dimZ kernel' ptxka ret =
     (if kernel' = 0 then \<lparr>warp_ok = False, warp_ret = ret, warp_calls = []\<rparr>
      else
        let calls1 = [Call_launch_kernel dimX dimY dimZ]
        in if cu_launch_kernel drv \<noteq> GRAAL_CUDA_SUCCESS
           then \<lparr>warp_ok = False, warp_ret = ret, warp_calls = calls1\<rparr>
           else
             let calls2 = calls1 @ [Call_ctx_synchronize]
             in if cu_ctx_synchronize drv \<noteq> GRAAL_CUDA_SUCCESS
                then \<lparr>warp_ok = False, warp_ret = ret, warp_calls = calls2\<rparr>
                else
                  let copy = return_copy (ret_type ptxka);
                      calls3 = calls2 @ (case copy of
                                 Some (n, set_ret) \<Rightarrow> [Call_memcpy_dtoh (dev_return_value ptxka) n]
                               | None \<Rightarrow> [])
                  in if copy \<noteq> None \<and> fst (cu_memcpy_dtoh drv) \<noteq> GRAAL_CUDA_SUCCESS
                     then \<lparr>warp_ok = False, warp_ret = ret, warp_calls = calls3\<rparr>
                     else
                       let ret' = (case copy of
                                     Some (n, set_ret) \<Rightarrow> set_ret (snd (cu_memcpy_dtoh drv))
                                   | None \<Rightarrow> ret);
                           calls4 = calls3 @ [Call_memfree (dev_return_value ptxka)]
                       in if cu_memfree drv \<noteq> GRAAL_CUDA_SUCCESS
                          then \<lparr>warp_ok = False, warp_ret = ret', warp_calls = calls4\<rparr>
                          else
                            let calls5 = calls4 @ [Call_ctx_destroy]
                            in if cu_ctx_destroy drv \<noteq> GRAAL_CUDA_SUCCESS
                               then \<lparr>warp_ok = False, warp_ret = ret', warp_calls = calls5\<rparr>
                               else \<lparr>warp_ok = True, warp_ret = ret', warp_calls = calls5\<rparr>)"

definition execute_kernel ::
  "cuda_driver \<Rightarrow> 64 word \<Rightarrow> PTXKernelArguments \<Rightarrow> JavaValue \<Rightarrow> warp_execution" where
  "execute_kernel drv kernel' ptxka ret = execute_warp drv 1 1 1 kernel' ptxka ret"

subsection \<open>The lookup table of the specification\<close>



subsection \<open>A device, two tables of entry points, three libraries and a driver\<close>







definition responsive_driver :: cuda_driver where
  "responsive_driver =
     \<lparr>cu_memalloc = (GRAAL_CUDA_SUCCESS, 0x500000),
      cu_launch_kernel = GRAAL_CUDA_SUCCESS,
      cu_ctx_synchronize = GRAAL_CUDA_SUCCESS,
      cu_memcpy_dtoh = (GRAAL_CUDA_SUCCESS, 42),
      cu_memfree = GRAAL_CUDA_SUCCESS,
      cu_ctx_destroy = GRAAL_CUDA_SUCCESS\<rparr>"

definition void_arguments :: PTXKernelArguments where
  "void_arguments =
     \<lparr>ret_type = T_VOID, dev_return_value = 0x500000, kernelArgBuffer = 0x600000,
      bufferOffset = 16\<rparr>"

section \<open>Properties of the allocation regions\<close>

declare cleanup_loop.simps [simp del]

lemma cleanup_loop_done:
  "\<not> i < tlab_infos_pool_next (c_info c) \<Longrightarrow> cleanup_loop rt i c = Inr c"
  by (simp add: cleanup_loop.simps [of rt i c])

lemma cleanup_loop_step:
  "i < tlab_infos_pool_next (c_info c) \<Longrightarrow> i < length (tlab_infos_pool (c_info c)) \<Longrightarrow>
     cleanup_loop rt i c = cleanup_loop rt (Suc i) (postprocess_tlabInfo rt i c)"
  by (simp add: cleanup_loop.simps [of rt i c])

lemma pp_length [simp]:
  "length (tlab_infos_pool (c_info (postprocess_tlabInfo rt i c))) = length (tlab_infos_pool (c_info c))"
  by (simp add: postprocess_tlabInfo_def Let_def)

lemma pp_next [simp]:
  "tlab_infos_pool_next (c_info (postprocess_tlabInfo rt i c)) = tlab_infos_pool_next (c_info c)"
  by (simp add: postprocess_tlabInfo_def Let_def)

lemma pp_pool:
  "tlab_infos_pool (c_info (postprocess_tlabInfo rt i c)) =
     (tlab_infos_pool (c_info c))[i := rolled_back (tlab_infos_pool (c_info c) ! i)]"
  by (simp add: postprocess_tlabInfo_def Let_def rolled_back_def overflowed_region_def)

lemma pp_info:
  "c_info (postprocess_tlabInfo rt i c) =
     (c_info c)\<lparr>tlab_infos_pool := (tlab_infos_pool (c_info c))[i := rolled_back (tlab_infos_pool (c_info c) ! i)]\<rparr>"
  by (simp add: postprocess_tlabInfo_def Let_def rolled_back_def overflowed_region_def)

lemma pp_bytes:
  "bytesAllocated (postprocess_tlabInfo rt i c) =
     bytesAllocated c + region_delta (tlab_infos_pool (c_info c) ! i)"
  by (simp add: postprocess_tlabInfo_def Let_def rolled_back_def overflowed_region_def region_delta_def)

lemma pp_any:
  "anyOverflows (postprocess_tlabInfo rt i c) =
     (anyOverflows c \<or> overflowed_region (tlab_infos_pool (c_info c) ! i))"
  by (simp add: postprocess_tlabInfo_def Let_def overflowed_region_def)

lemma print_cr_calls [simp]: "vm_calls (print_cr rt l vm) = vm_calls vm"
  by (simp add: print_cr_def)

lemma print_cr_stats [simp]: "kernelStats_overflows (print_cr rt l vm) = kernelStats_overflows vm"
  by (simp add: print_cr_def)

lemma pp_calls:
  "vm_calls (c_vm (postprocess_tlabInfo rt i c)) =
     vm_calls (c_vm c) @ region_calls rt (tlab_infos_pool (c_info c) ! i)"
  by (simp add: postprocess_tlabInfo_def Let_def rolled_back_def overflowed_region_def
      region_calls_def fill_def make_parsable_def)

lemma pp_stats:
  "kernelStats_overflows (c_vm (postprocess_tlabInfo rt i c)) = kernelStats_overflows (c_vm c)"
  by (simp add: postprocess_tlabInfo_def Let_def fill_def make_parsable_def)

lemma pp_tty:
  "\<exists>ls. vm_tty (c_vm (postprocess_tlabInfo rt i c)) = vm_tty (c_vm c) @ ls"
  by (simp add: postprocess_tlabInfo_def Let_def fill_def make_parsable_def print_cr_def)


lemma cleanup_loop_run:
  assumes "n = tlab_infos_pool_next (c_info c)"
    and "n \<le> length (tlab_infos_pool (c_info c))"
    and "i \<le> n"
  shows "\<exists>c'. cleanup_loop rt i c = Inr c' \<and>
      c_info c' = (c_info c)\<lparr>tlab_infos_pool :=
         take i (tlab_infos_pool (c_info c))
         @ map rolled_back (drop i (take n (tlab_infos_pool (c_info c))))
         @ drop n (tlab_infos_pool (c_info c))\<rparr> \<and>
      bytesAllocated c' = bytesAllocated c
         + sum_list (map region_delta (drop i (take n (tlab_infos_pool (c_info c))))) \<and>
      anyOverflows c' = (anyOverflows c
         \<or> list_ex overflowed_region (drop i (take n (tlab_infos_pool (c_info c))))) \<and>
      vm_calls (c_vm c') = vm_calls (c_vm c)
         @ concat (map (region_calls rt) (drop i (take n (tlab_infos_pool (c_info c))))) \<and>
      kernelStats_overflows (c_vm c') = kernelStats_overflows (c_vm c) \<and>
      (\<exists>ls. vm_tty (c_vm c') = vm_tty (c_vm c) @ ls)"
  using assms
proof (induction "n - i" arbitrary: i c)
  case 0
  then have "i = n" by simp
  with 0 show ?case by (simp add: cleanup_loop_done)
next
  case (Suc k)
  let ?pool = "tlab_infos_pool (c_info c)"
  let ?c1 = "postprocess_tlabInfo rt i c"
  from Suc have lt: "i < n" by simp
  with Suc.prems have ilen: "i < length ?pool" by simp
  have step: "cleanup_loop rt i c = cleanup_loop rt (Suc i) ?c1"
    using lt ilen Suc.prems(1) by (simp add: cleanup_loop.simps [of rt i c])
  have pool1: "tlab_infos_pool (c_info ?c1) = ?pool[i := rolled_back (?pool ! i)]"
    by (rule pp_pool)
  have k: "k = n - Suc i" using Suc.hyps(2) by simp
  have n1: "n = tlab_infos_pool_next (c_info ?c1)" using Suc.prems(1) by simp
  have n2: "n \<le> length (tlab_infos_pool (c_info ?c1))" using Suc.prems(2) by simp
  have n3: "Suc i \<le> n" using lt by simp
  from Suc.hyps(1) [OF k n1 n2 n3]
  obtain c' where run: "cleanup_loop rt (Suc i) ?c1 = Inr c'"
    and info: "c_info c' = (c_info ?c1)\<lparr>tlab_infos_pool :=
         take (Suc i) (tlab_infos_pool (c_info ?c1))
         @ map rolled_back (drop (Suc i) (take n (tlab_infos_pool (c_info ?c1))))
         @ drop n (tlab_infos_pool (c_info ?c1))\<rparr>"
    and bytes: "bytesAllocated c' = bytesAllocated ?c1
         + sum_list (map region_delta (drop (Suc i) (take n (tlab_infos_pool (c_info ?c1)))))"
    and anyo: "anyOverflows c' = (anyOverflows ?c1
         \<or> list_ex overflowed_region (drop (Suc i) (take n (tlab_infos_pool (c_info ?c1)))))"
    and calls: "vm_calls (c_vm c') = vm_calls (c_vm ?c1)
         @ concat (map (region_calls rt) (drop (Suc i) (take n (tlab_infos_pool (c_info ?c1)))))"
    and stats: "kernelStats_overflows (c_vm c') = kernelStats_overflows (c_vm ?c1)"
    and tty: "\<exists>ls. vm_tty (c_vm c') = vm_tty (c_vm ?c1) @ ls"
    by blast
  have d1: "drop (Suc i) (take n (?pool[i := rolled_back (?pool ! i)])) = drop (Suc i) (take n ?pool)"
    by (simp add: take_update_swap)
  have d2: "drop n (?pool[i := rolled_back (?pool ! i)]) = drop n ?pool"
    using lt by simp
  have d3: "take (Suc i) (?pool[i := rolled_back (?pool ! i)]) = take i ?pool @ [rolled_back (?pool ! i)]"
    using ilen by (simp add: take_Suc_conv_app_nth)
  have d4: "drop i (take n ?pool) = ?pool ! i # drop (Suc i) (take n ?pool)"
    using lt ilen by (simp add: Cons_nth_drop_Suc [symmetric])
  have "c_info c' = (c_info c)\<lparr>tlab_infos_pool :=
         take i ?pool @ map rolled_back (drop i (take n ?pool)) @ drop n ?pool\<rparr>"
    using info by (simp add: pp_info d1 d2 d3 d4)
  moreover have "bytesAllocated c' = bytesAllocated c
         + sum_list (map region_delta (drop i (take n ?pool)))"
    using bytes by (simp add: pool1 d1 d4 pp_bytes add.assoc)
  moreover have "anyOverflows c' = (anyOverflows c
         \<or> list_ex overflowed_region (drop i (take n ?pool)))"
    using anyo by (simp add: pool1 d1 d4 pp_any)
  moreover have "vm_calls (c_vm c') = vm_calls (c_vm c)
         @ concat (map (region_calls rt) (drop i (take n ?pool)))"
    using calls by (simp add: pool1 d1 d4 pp_calls)
  moreover have "kernelStats_overflows (c_vm c') = kernelStats_overflows (c_vm c)"
    using stats by (simp add: pp_stats)
  moreover have "\<exists>ls. vm_tty (c_vm c') = vm_tty (c_vm c) @ ls"
    using tty pp_tty [of rt i c] by auto
  ultimately show ?case using step run by simp
qed


lemma pp_tty_off:
  "\<not> TraceGPUInteraction rt \<Longrightarrow> vm_tty (c_vm (postprocess_tlabInfo rt i c)) = vm_tty (c_vm c)"
  by (simp add: postprocess_tlabInfo_def Let_def fill_def make_parsable_def print_cr_def)

lemma cleanup_loop_tty_off:
  assumes "\<not> TraceGPUInteraction rt"
    and "cleanup_loop rt i c = Inr c'"
  shows "vm_tty (c_vm c') = vm_tty (c_vm c)"
  using assms
proof (induction rt i c rule: cleanup_loop.induct)
  case (1 rt i c)
  show ?case
  proof (cases "i < tlab_infos_pool_next (c_info c)")
    case False
    with "1.prems" show ?thesis by (simp add: cleanup_loop.simps [of rt i c])
  next
    case True
    show ?thesis
    proof (cases "i < length (tlab_infos_pool (c_info c))")
      case False
      with True "1.prems" show ?thesis by (simp add: cleanup_loop.simps [of rt i c])
    next
      case inb: True
      with True "1.prems" have "cleanup_loop rt (Suc i) (postprocess_tlabInfo rt i c) = Inr c'"
        by (simp add: cleanup_loop.simps [of rt i c])
      from "1.IH" [OF True inb "1.prems"(1) this] show ?thesis
        using "1.prems"(1) by (simp add: pp_tty_off)
    qed
  qed
qed

lemma postKernelCleanup_run:
  fixes info :: HSAILAllocationInfo
  defines "n \<equiv> min (tlab_infos_pool_next info) (length (tlab_infos_pool info))"
  shows "\<exists>c. postKernelCleanup rt info vm = Inr c \<and>
      c_info c = info\<lparr>tlab_infos_pool_next := n,
        tlab_infos_pool := map rolled_back (take n (tlab_infos_pool info))
           @ drop n (tlab_infos_pool info)\<rparr> \<and>
      bytesAllocated c = sum_list (map region_delta (take n (tlab_infos_pool info))) \<and>
      anyOverflows c = list_ex overflowed_region (take n (tlab_infos_pool info)) \<and>
      vm_calls (c_vm c) = vm_calls vm
         @ concat (map (region_calls rt) (take n (tlab_infos_pool info))) \<and>
      kernelStats_overflows (c_vm c) = kernelStats_overflows vm \<and>
      (\<exists>ls. vm_tty (c_vm c) = vm_tty vm
         @ (if TraceGPUInteraction rt \<and> length (tlab_infos_pool info) < tlab_infos_pool_next info
            then [Tty_pool_overflowed (of_nat (tlab_infos_pool_next info - length (tlab_infos_pool info)))]
            else [])
         @ ls
         @ (if TraceGPUInteraction rt then [Tty_total_bytes (bytesAllocated c)] else []))"
proof -
  let ?ovf = "length (tlab_infos_pool info) < tlab_infos_pool_next info"
  let ?vm1 = "if ?ovf then print_cr rt (Tty_pool_overflowed
                 (of_nat (tlab_infos_pool_next info - length (tlab_infos_pool info)))) vm else vm"
  let ?info1 = "if ?ovf then info\<lparr>tlab_infos_pool_next := length (tlab_infos_pool info)\<rparr> else info"
  let ?c0 = "\<lparr>c_info = ?info1, c_vm = ?vm1, anyOverflows = False, bytesAllocated = 0\<rparr>"
  have info1: "?info1 = info\<lparr>tlab_infos_pool_next := n\<rparr>"
    by (simp add: n_def min_def)
  have a1: "n = tlab_infos_pool_next (c_info ?c0)"
    by (simp add: n_def min_def)
  have a2: "n \<le> length (tlab_infos_pool (c_info ?c0))"
    by (simp add: n_def)
  from cleanup_loop_run [OF a1 a2, of 0 rt]
  obtain c' where run: "cleanup_loop rt 0 ?c0 = Inr c'"
    and info: "c_info c' = (c_info ?c0)\<lparr>tlab_infos_pool :=
         map rolled_back (take n (tlab_infos_pool (c_info ?c0)))
         @ drop n (tlab_infos_pool (c_info ?c0))\<rparr>"
    and bytes: "bytesAllocated c' = sum_list (map region_delta (take n (tlab_infos_pool (c_info ?c0))))"
    and anyo: "anyOverflows c' = list_ex overflowed_region (take n (tlab_infos_pool (c_info ?c0)))"
    and calls: "vm_calls (c_vm c') = vm_calls (c_vm ?c0)
         @ concat (map (region_calls rt) (take n (tlab_infos_pool (c_info ?c0))))"
    and stats: "kernelStats_overflows (c_vm c') = kernelStats_overflows (c_vm ?c0)"
    and tty: "\<exists>ls. vm_tty (c_vm c') = vm_tty (c_vm ?c0) @ ls"
    by auto
  have pool0: "tlab_infos_pool (c_info ?c0) = tlab_infos_pool info" by simp
  let ?c = "c'\<lparr>c_vm := print_cr rt (Tty_total_bytes (bytesAllocated c')) (c_vm c')\<rparr>"
  have res: "postKernelCleanup rt info vm = Inr ?c"
    using run by (simp add: postKernelCleanup_def Let_def)
  have "c_info ?c = info\<lparr>tlab_infos_pool_next := n,
        tlab_infos_pool := map rolled_back (take n (tlab_infos_pool info))
           @ drop n (tlab_infos_pool info)\<rparr>"
    using info unfolding pool0 by (simp add: info1)
  moreover have "bytesAllocated ?c = sum_list (map region_delta (take n (tlab_infos_pool info)))"
    using bytes unfolding pool0 by simp
  moreover have "anyOverflows ?c = list_ex overflowed_region (take n (tlab_infos_pool info))"
    using anyo unfolding pool0 by simp
  moreover have "vm_calls (c_vm ?c) = vm_calls vm
         @ concat (map (region_calls rt) (take n (tlab_infos_pool info)))"
    using calls unfolding pool0 by simp
  moreover have "kernelStats_overflows (c_vm ?c) = kernelStats_overflows vm"
    using stats by simp
  moreover have "\<exists>ls. vm_tty (c_vm ?c) = vm_tty vm
         @ (if TraceGPUInteraction rt \<and> ?ovf
            then [Tty_pool_overflowed (of_nat (tlab_infos_pool_next info - length (tlab_infos_pool info)))]
            else [])
         @ ls
         @ (if TraceGPUInteraction rt then [Tty_total_bytes (bytesAllocated ?c)] else [])"
    using tty by (auto simp: print_cr_def)
  ultimately show ?thesis using res by blast
qed


lemma postKernelCleanup_silent:
  assumes "\<not> TraceGPUInteraction rt"
    and "postKernelCleanup rt info vm = Inr c"
  shows "vm_tty (c_vm c) = vm_tty vm"
proof -
  let ?ovf = "length (tlab_infos_pool info) < tlab_infos_pool_next info"
  let ?vm1 = "if ?ovf then print_cr rt (Tty_pool_overflowed
                 (of_nat (tlab_infos_pool_next info - length (tlab_infos_pool info)))) vm else vm"
  let ?info1 = "if ?ovf then info\<lparr>tlab_infos_pool_next := length (tlab_infos_pool info)\<rparr> else info"
  let ?c0 = "\<lparr>c_info = ?info1, c_vm = ?vm1, anyOverflows = False, bytesAllocated = 0\<rparr>"
  from assms(2) obtain c' where loop: "cleanup_loop rt 0 ?c0 = Inr c'"
    and c: "c = c'\<lparr>c_vm := print_cr rt (Tty_total_bytes (bytesAllocated c')) (c_vm c')\<rparr>"
    by (cases "cleanup_loop rt 0 ?c0") (auto simp: postKernelCleanup_def Let_def)
  have "vm_tty (c_vm c') = vm_tty (c_vm ?c0)"
    using assms(1) loop by (rule cleanup_loop_tty_off)
  then show ?thesis
    using assms(1) c by (simp add: print_cr_def)
qed

lemma start_rolled_back [simp]: "ti_start (rolled_back r) = ti_start r"
  by (simp add: rolled_back_def)

lemma original_top_rolled_back [simp]: "ti_original_top (rolled_back r) = ti_original_top r"
  by (simp add: rolled_back_def)

lemma sum_region_delta:
  "sum_list (map region_delta xs) =
     sum_list (map (\<lambda>r. ti_top r - ti_original_top r)
       (filter (\<lambda>r. ti_start r \<noteq> 0) (map rolled_back xs)))"
  by (induction xs) (simp_all add: region_delta_def)

lemma sum_region_delta_input:
  "sum_list (map region_delta xs) =
     sum_list (map (\<lambda>r. (if ti_end r < ti_top r then ti_last_good_top r else ti_top r)
                     - ti_original_top r)
       (filter (\<lambda>r. ti_start r \<noteq> 0) xs))"
  by (induction xs) (simp_all add: region_delta_def rolled_back_def overflowed_region_def)

text \<open>
  Claim C1, as amended. A region that the loop reaches (its slot is below the clamped
  cursor), with a non-null start and with \<open>top\<close> beyond \<open>end\<close>, has \<open>top\<close> equal to its
  \<open>lastGoodTop\<close> after the cleanup. Its donor thread's buffer is filled from the rolled
  back region and then made parsable with \<open>retire = true\<close>, the local flag
  \<open>anyOverflows\<close> is set, and the overflow statistic keeps its value: no counter is
  incremented.
\<close>

theorem postKernelCleanup_overflowed_region:
  assumes "i < tlab_infos_pool_next info"
    and "i < length (tlab_infos_pool info)"
    and "ti_start (tlab_infos_pool info ! i) \<noteq> 0"
    and "ti_end (tlab_infos_pool info ! i) < ti_top (tlab_infos_pool info ! i)"
  shows "\<exists>c. postKernelCleanup rt info vm = Inr c \<and>
      ti_top (tlab_infos_pool (c_info c) ! i) = ti_last_good_top (tlab_infos_pool info ! i) \<and>
      (\<exists>before after. vm_calls (c_vm c) =
          before
          @ [Tlab_fill (ti_donor_thread (tlab_infos_pool info ! i))
               (ti_start (tlab_infos_pool info ! i))
               (ti_last_good_top (tlab_infos_pool info ! i))
               (signed_drop_bit LogHeapWordSize
                  (ti_end (tlab_infos_pool info ! i) - ti_start (tlab_infos_pool info ! i))
                + alignment_reserve rt),
             Tlab_make_parsable (ti_donor_thread (tlab_infos_pool info ! i)) True]
          @ after) \<and>
      anyOverflows c \<and>
      kernelStats_overflows (c_vm c) = kernelStats_overflows vm"
proof -
  let ?pool = "tlab_infos_pool info"
  let ?n = "min (tlab_infos_pool_next info) (length ?pool)"
  let ?xs = "take ?n ?pool"
  from postKernelCleanup_run [of rt info vm]
  obtain c where run: "postKernelCleanup rt info vm = Inr c"
    and info: "c_info c = info\<lparr>tlab_infos_pool_next := ?n,
        tlab_infos_pool := map rolled_back ?xs @ drop ?n ?pool\<rparr>"
    and anyo: "anyOverflows c = list_ex overflowed_region ?xs"
    and calls: "vm_calls (c_vm c) = vm_calls vm @ concat (map (region_calls rt) ?xs)"
    and stats: "kernelStats_overflows (c_vm c) = kernelStats_overflows vm"
    by blast
  have i: "i < length ?xs" using assms(1,2) by simp
  have xi: "?xs ! i = ?pool ! i" using assms(1,2) by simp
  have ovf: "overflowed_region (?pool ! i)"
    using assms(3,4) by (simp add: overflowed_region_def)
  have "tlab_infos_pool (c_info c) ! i = rolled_back (?pool ! i)"
    using info i xi by (simp add: nth_append)
  then have top: "ti_top (tlab_infos_pool (c_info c) ! i) = ti_last_good_top (?pool ! i)"
    using ovf by (simp add: rolled_back_def)
  have split: "?xs = take i ?xs @ (?pool ! i) # drop (Suc i) ?xs"
    using id_take_nth_drop [OF i] xi by simp
  have "concat (map (region_calls rt) ?xs) =
      concat (map (region_calls rt) (take i ?xs)) @ region_calls rt (?pool ! i)
      @ concat (map (region_calls rt) (drop (Suc i) ?xs))"
    by (subst split) simp
  then have "vm_calls (c_vm c) =
      (vm_calls vm @ concat (map (region_calls rt) (take i ?xs)))
      @ region_calls rt (?pool ! i)
      @ concat (map (region_calls rt) (drop (Suc i) ?xs))"
    using calls by simp
  moreover have "region_calls rt (?pool ! i) =
      [Tlab_fill (ti_donor_thread (?pool ! i)) (ti_start (?pool ! i))
         (ti_last_good_top (?pool ! i))
         (signed_drop_bit LogHeapWordSize (ti_end (?pool ! i) - ti_start (?pool ! i))
            + alignment_reserve rt),
       Tlab_make_parsable (ti_donor_thread (?pool ! i)) True]"
    using ovf assms(3) by (simp add: region_calls_def rolled_back_def)
  ultimately have trace: "\<exists>before after. vm_calls (c_vm c) =
          before
          @ [Tlab_fill (ti_donor_thread (?pool ! i)) (ti_start (?pool ! i))
               (ti_last_good_top (?pool ! i))
               (signed_drop_bit LogHeapWordSize (ti_end (?pool ! i) - ti_start (?pool ! i))
                + alignment_reserve rt),
             Tlab_make_parsable (ti_donor_thread (?pool ! i)) True]
          @ after"
    by metis
  have "?pool ! i \<in> set ?xs" using i xi by (metis nth_mem)
  then have "anyOverflows c" using anyo ovf by (auto simp: list_ex_iff)
  with run top trace stats show ?thesis by blast
qed

text \<open>The theorem of C1 at a region that overflowed by 128 bytes.\<close>

theorem postKernelCleanup_overflowed_region_witness:
  "\<exists>c. postKernelCleanup example_runtime overflowed_info example_vm = Inr c \<and>
      ti_top (tlab_infos_pool (c_info c) ! 0) = 0x1040 \<and>
      (\<exists>before after. vm_calls (c_vm c) =
          before @ [Tlab_fill 7 0x1000 0x1040 18, Tlab_make_parsable 7 True] @ after) \<and>
      anyOverflows c \<and>
      kernelStats_overflows (c_vm c) = 0"
  using postKernelCleanup_overflowed_region [of 0 overflowed_info example_runtime example_vm]
  by (simp add: overflowed_info_def overflowed_example_def example_runtime_def example_vm_def
      LogHeapWordSize_def)

text \<open>
  Claim C1 as stated fails twice on a pool of two regions. The first has a non-null
  start and overflowed: after the cleanup the overflow statistic has not gone up by one.
  The second has \<open>top\<close> beyond \<open>end\<close> and a null start: the cleanup skips it, and its
  \<open>top\<close> is not its \<open>lastGoodTop\<close> afterwards.
\<close>

theorem overflow_counter_counterexample:
  "\<not> (\<exists>c. postKernelCleanup example_runtime overflowed_info example_vm = Inr c \<and>
        kernelStats_overflows (c_vm c) = kernelStats_overflows example_vm + 1) \<and>
   \<not> (\<exists>c. postKernelCleanup example_runtime overflowed_info example_vm = Inr c \<and>
        ti_top (tlab_infos_pool (c_info c) ! 1)
          = ti_last_good_top (tlab_infos_pool overflowed_info ! 1))"
proof -
  let ?n = "min (tlab_infos_pool_next overflowed_info) (length (tlab_infos_pool overflowed_info))"
  from postKernelCleanup_run [of example_runtime overflowed_info example_vm]
  obtain c where run: "postKernelCleanup example_runtime overflowed_info example_vm = Inr c"
    and stats: "kernelStats_overflows (c_vm c) = kernelStats_overflows example_vm"
    and info: "c_info c = overflowed_info\<lparr>tlab_infos_pool_next := ?n,
        tlab_infos_pool := map rolled_back (take ?n (tlab_infos_pool overflowed_info))
           @ drop ?n (tlab_infos_pool overflowed_info)\<rparr>"
    by blast
  have "tlab_infos_pool (c_info c) ! 1 = unprimed_example"
    unfolding info
    by (simp add: overflowed_info_def rolled_back_def overflowed_region_def unprimed_example_def)
  then have "ti_top (tlab_infos_pool (c_info c) ! 1)
      \<noteq> ti_last_good_top (tlab_infos_pool overflowed_info ! 1)"
    by (simp add: overflowed_info_def unprimed_example_def)
  with run stats show ?thesis by auto
qed

text \<open>
  Claim C4, as amended. \<open>postKernelCleanup\<close> never faults, so its loop reads no slot
  outside the arena, whatever the cursor is: afterwards the cursor is the smaller of its
  old value and the end of the arena, the arena has as many slots as before, and the
  slots from the cursor on are as they were. When the cursor was past the end it is the
  end afterwards, and the amount of the overflow, as a C \<open>int\<close>, has been printed if
  \<open>TraceGPUInteraction\<close> is set. If it is not set, nothing is printed at all.
\<close>

theorem postKernelCleanup_clamps_pool_next:
  "\<exists>c. postKernelCleanup rt info vm = Inr c \<and>
      tlab_infos_pool_next (c_info c)
        = min (tlab_infos_pool_next info) (length (tlab_infos_pool info)) \<and>
      length (tlab_infos_pool (c_info c)) = length (tlab_infos_pool info) \<and>
      drop (tlab_infos_pool_next (c_info c)) (tlab_infos_pool (c_info c))
        = drop (tlab_infos_pool_next (c_info c)) (tlab_infos_pool info) \<and>
      (length (tlab_infos_pool info) < tlab_infos_pool_next info \<longrightarrow>
         tlab_infos_pool_next (c_info c) = length (tlab_infos_pool info) \<and>
         (TraceGPUInteraction rt \<longrightarrow>
            Tty_pool_overflowed (of_nat (tlab_infos_pool_next info - length (tlab_infos_pool info)))
              \<in> set (vm_tty (c_vm c)))) \<and>
      (\<not> TraceGPUInteraction rt \<longrightarrow> vm_tty (c_vm c) = vm_tty vm)"
proof -
  from postKernelCleanup_run [of rt info vm]
  obtain c where run: "postKernelCleanup rt info vm = Inr c"
    and info: "c_info c = info\<lparr>tlab_infos_pool_next :=
           min (tlab_infos_pool_next info) (length (tlab_infos_pool info)),
        tlab_infos_pool := map rolled_back
             (take (min (tlab_infos_pool_next info) (length (tlab_infos_pool info)))
               (tlab_infos_pool info))
           @ drop (min (tlab_infos_pool_next info) (length (tlab_infos_pool info)))
               (tlab_infos_pool info)\<rparr>"
    and tty: "\<exists>ls. vm_tty (c_vm c) = vm_tty vm
         @ (if TraceGPUInteraction rt \<and> length (tlab_infos_pool info) < tlab_infos_pool_next info
            then [Tty_pool_overflowed (of_nat (tlab_infos_pool_next info - length (tlab_infos_pool info)))]
            else [])
         @ ls
         @ (if TraceGPUInteraction rt then [Tty_total_bytes (bytesAllocated c)] else [])"
    by blast
  have "tlab_infos_pool_next (c_info c)
        = min (tlab_infos_pool_next info) (length (tlab_infos_pool info))"
    using info by simp
  moreover have "length (tlab_infos_pool (c_info c)) = length (tlab_infos_pool info)"
    using info by simp
  moreover have "drop (tlab_infos_pool_next (c_info c)) (tlab_infos_pool (c_info c))
        = drop (tlab_infos_pool_next (c_info c)) (tlab_infos_pool info)"
    using info by simp
  moreover have "length (tlab_infos_pool info) < tlab_infos_pool_next info \<longrightarrow>
         TraceGPUInteraction rt \<longrightarrow>
            Tty_pool_overflowed (of_nat (tlab_infos_pool_next info - length (tlab_infos_pool info)))
              \<in> set (vm_tty (c_vm c))"
    using tty by auto
  moreover have "\<not> TraceGPUInteraction rt \<longrightarrow> vm_tty (c_vm c) = vm_tty vm"
    using postKernelCleanup_silent [OF _ run] by blast
  ultimately show ?thesis using run by auto
qed

text \<open>
  The theorem of C4 at a cursor two slots past the end of a two-slot arena, with the
  trace on and with the trace off.
\<close>

theorem postKernelCleanup_clamps_pool_next_witness:
  "(\<exists>c. postKernelCleanup example_runtime overflowed_info example_vm = Inr c \<and>
      tlab_infos_pool_next (c_info c) = 2 \<and>
      Tty_pool_overflowed 2 \<in> set (vm_tty (c_vm c))) \<and>
   (\<exists>c. postKernelCleanup silent_runtime overflowed_info example_vm = Inr c \<and>
      tlab_infos_pool_next (c_info c) = 2 \<and>
      vm_tty (c_vm c) = vm_tty example_vm)"
proof -
  have "\<exists>c. postKernelCleanup example_runtime overflowed_info example_vm = Inr c \<and>
      tlab_infos_pool_next (c_info c) = 2 \<and>
      Tty_pool_overflowed 2 \<in> set (vm_tty (c_vm c))"
    using postKernelCleanup_clamps_pool_next [of example_runtime overflowed_info example_vm]
    by (auto simp: overflowed_info_def example_runtime_def)
  moreover have "\<exists>c. postKernelCleanup silent_runtime overflowed_info example_vm = Inr c \<and>
      tlab_infos_pool_next (c_info c) = 2 \<and>
      vm_tty (c_vm c) = vm_tty example_vm"
    using postKernelCleanup_clamps_pool_next [of silent_runtime overflowed_info example_vm]
    by (auto simp: overflowed_info_def silent_runtime_def)
  ultimately show ?thesis by simp
qed

text \<open>
  Claim C4 as stated fails: with \<open>TraceGPUInteraction\<close> off and the cursor two slots
  past the end of the arena, the cleanup clamps the cursor and prints nothing, so the
  overflow of the pool is not logged.
\<close>

theorem pool_overflow_not_logged_counterexample:
  "length (tlab_infos_pool overflowed_info) < tlab_infos_pool_next overflowed_info \<and>
   (\<exists>c. postKernelCleanup silent_runtime overflowed_info example_vm = Inr c \<and>
      tlab_infos_pool_next (c_info c) = length (tlab_infos_pool overflowed_info) \<and>
      vm_tty (c_vm c) = [])"
proof -
  from postKernelCleanup_run [of silent_runtime overflowed_info example_vm]
  obtain c where run: "postKernelCleanup silent_runtime overflowed_info example_vm = Inr c"
    and info: "c_info c = overflowed_info\<lparr>tlab_infos_pool_next :=
           min (tlab_infos_pool_next overflowed_info) (length (tlab_infos_pool overflowed_info)),
        tlab_infos_pool := map rolled_back
             (take (min (tlab_infos_pool_next overflowed_info)
                      (length (tlab_infos_pool overflowed_info)))
               (tlab_infos_pool overflowed_info))
           @ drop (min (tlab_infos_pool_next overflowed_info)
                      (length (tlab_infos_pool overflowed_info)))
               (tlab_infos_pool overflowed_info)\<rparr>"
    by blast
  have off: "\<not> TraceGPUInteraction silent_runtime"
    by (simp add: silent_runtime_def)
  have "vm_tty (c_vm c) = []"
    using postKernelCleanup_silent [OF off run] by (simp add: example_vm_def)
  moreover have "tlab_infos_pool_next (c_info c) = length (tlab_infos_pool overflowed_info)"
    using info by (simp add: overflowed_info_def)
  moreover have "length (tlab_infos_pool overflowed_info) < tlab_infos_pool_next overflowed_info"
    by (simp add: overflowed_info_def)
  ultimately show ?thesis using run by blast
qed

text \<open>
  Claim C7. Let \<open>n\<close> be the smaller of the cursor and the end of the arena before the
  cleanup, so that the first \<open>n\<close> slots are the regions reserved from the pool. After
  \<open>postKernelCleanup\<close> the total \<open>bytesAllocated\<close> is the sum, over those of the first \<open>n\<close>
  regions whose start is not null, of the final \<open>top\<close> minus \<open>originalTop\<close>, in \<open>size_t\<close>
  arithmetic, where the final \<open>top\<close> is \<open>lastGoodTop\<close> for a region with \<open>top\<close> beyond
  \<open>end\<close> and the old \<open>top\<close> otherwise. The pool afterwards holds exactly these final
  regions in its first \<open>n\<close> slots, the cursor is \<open>n\<close>, and the total is the same sum read
  off the pool afterwards. With \<open>TraceGPUInteraction\<close> set the total is the last line
  printed.
\<close>

theorem postKernelCleanup_bytesAllocated:
  "\<exists>c. postKernelCleanup rt info vm = Inr c \<and>
      bytesAllocated c =
        sum_list (map (\<lambda>r. (if ti_end r < ti_top r then ti_last_good_top r else ti_top r)
                        - ti_original_top r)
          (filter (\<lambda>r. ti_start r \<noteq> 0)
            (take (min (tlab_infos_pool_next info) (length (tlab_infos_pool info)))
               (tlab_infos_pool info)))) \<and>
      tlab_infos_pool_next (c_info c)
        = min (tlab_infos_pool_next info) (length (tlab_infos_pool info)) \<and>
      tlab_infos_pool (c_info c) =
        map (\<lambda>r. if ti_start r \<noteq> 0 \<and> ti_end r < ti_top r
                  then r\<lparr>ti_top := ti_last_good_top r\<rparr> else r)
          (take (min (tlab_infos_pool_next info) (length (tlab_infos_pool info)))
             (tlab_infos_pool info))
        @ drop (min (tlab_infos_pool_next info) (length (tlab_infos_pool info)))
             (tlab_infos_pool info) \<and>
      bytesAllocated c =
        sum_list (map (\<lambda>r. ti_top r - ti_original_top r)
          (filter (\<lambda>r. ti_start r \<noteq> 0)
            (take (min (tlab_infos_pool_next info) (length (tlab_infos_pool info)))
               (tlab_infos_pool (c_info c))))) \<and>
      (TraceGPUInteraction rt \<longrightarrow>
         last (vm_tty (c_vm c)) = Tty_total_bytes (bytesAllocated c))"
proof -
  let ?n = "min (tlab_infos_pool_next info) (length (tlab_infos_pool info))"
  from postKernelCleanup_run [of rt info vm]
  obtain c where run: "postKernelCleanup rt info vm = Inr c"
    and info: "c_info c = info\<lparr>tlab_infos_pool_next := ?n,
        tlab_infos_pool := map rolled_back (take ?n (tlab_infos_pool info))
           @ drop ?n (tlab_infos_pool info)\<rparr>"
    and bytes: "bytesAllocated c = sum_list (map region_delta (take ?n (tlab_infos_pool info)))"
    and tty: "\<exists>ls. vm_tty (c_vm c) = vm_tty vm
         @ (if TraceGPUInteraction rt \<and> length (tlab_infos_pool info) < tlab_infos_pool_next info
            then [Tty_pool_overflowed (of_nat (tlab_infos_pool_next info - length (tlab_infos_pool info)))]
            else [])
         @ ls
         @ (if TraceGPUInteraction rt then [Tty_total_bytes (bytesAllocated c)] else [])"
    by blast
  have rb: "rolled_back = (\<lambda>r. if ti_start r \<noteq> 0 \<and> ti_end r < ti_top r
                  then r\<lparr>ti_top := ti_last_good_top r\<rparr> else r)"
    by (rule ext) (simp add: rolled_back_def overflowed_region_def)
  have tk: "take ?n (tlab_infos_pool (c_info c)) = map rolled_back (take ?n (tlab_infos_pool info))"
    using info by simp
  have 1: "bytesAllocated c =
        sum_list (map (\<lambda>r. (if ti_end r < ti_top r then ti_last_good_top r else ti_top r)
                        - ti_original_top r)
          (filter (\<lambda>r. ti_start r \<noteq> 0) (take ?n (tlab_infos_pool info))))"
    unfolding bytes by (rule sum_region_delta_input)
  have 2: "tlab_infos_pool_next (c_info c) = ?n"
    using info by simp
  have 3: "tlab_infos_pool (c_info c) =
        map (\<lambda>r. if ti_start r \<noteq> 0 \<and> ti_end r < ti_top r
                  then r\<lparr>ti_top := ti_last_good_top r\<rparr> else r)
          (take ?n (tlab_infos_pool info))
        @ drop ?n (tlab_infos_pool info)"
    using info by (simp add: rb)
  have 4: "bytesAllocated c =
        sum_list (map (\<lambda>r. ti_top r - ti_original_top r)
          (filter (\<lambda>r. ti_start r \<noteq> 0) (take ?n (tlab_infos_pool (c_info c)))))"
    unfolding tk bytes by (rule sum_region_delta)
  have 5: "TraceGPUInteraction rt \<longrightarrow>
      last (vm_tty (c_vm c)) = Tty_total_bytes (bytesAllocated c)"
    using tty by auto
  from run 1 2 3 4 5 show ?thesis by blast
qed

text \<open>
  The theorem of C7 at a pool of two regions with the trace on: the first overflowed
  and counts the 64 bytes up to its \<open>lastGoodTop\<close>, the second has a null start and
  counts nothing.
\<close>

theorem postKernelCleanup_bytesAllocated_witness:
  "TraceGPUInteraction example_runtime \<and>
   (\<exists>c. postKernelCleanup example_runtime overflowed_info example_vm = Inr c \<and>
      bytesAllocated c = 64 \<and>
      last (vm_tty (c_vm c)) = Tty_total_bytes 64)"
proof -
  have t: "TraceGPUInteraction example_runtime"
    by (simp add: example_runtime_def)
  from postKernelCleanup_bytesAllocated [of example_runtime overflowed_info example_vm]
  obtain c where run: "postKernelCleanup example_runtime overflowed_info example_vm = Inr c"
    and bytes: "bytesAllocated c =
        sum_list (map (\<lambda>r. (if ti_end r < ti_top r then ti_last_good_top r else ti_top r)
                        - ti_original_top r)
          (filter (\<lambda>r. ti_start r \<noteq> 0)
            (take (min (tlab_infos_pool_next overflowed_info)
                     (length (tlab_infos_pool overflowed_info)))
               (tlab_infos_pool overflowed_info))))"
    and tty: "TraceGPUInteraction example_runtime \<longrightarrow>
         last (vm_tty (c_vm c)) = Tty_total_bytes (bytesAllocated c)"
    by blast
  have "bytesAllocated c = 64"
    unfolding bytes
    by (simp add: overflowed_info_def overflowed_example_def unprimed_example_def)
  with run tty t show ?thesis by auto
qed

subsection \<open>Construction\<close>

declare ctor_loop.simps [simp del]

lemma ctor_loop_done:
  "\<not> i < num_donor_threads (fst s) \<Longrightarrow> ctor_loop rt this i s = Inr s"
  by (simp add: ctor_loop.simps [of rt this i s])

lemma ctor_loop_step:
  "i < num_donor_threads (fst s) \<Longrightarrow> ctor_donor_step rt this i s = Inr s' \<Longrightarrow>
     ctor_loop rt this i s = ctor_loop rt this (Suc i) s'"
  by (simp add: ctor_loop.simps [of rt this i s])

lemma ctor_loop_fault:
  "i < num_donor_threads (fst s) \<Longrightarrow> ctor_donor_step rt this i s = Inl f \<Longrightarrow>
     ctor_loop rt this i s = Inl f"
  by (simp add: ctor_loop.simps [of rt this i s])

lemma ctor_donor_step_Inl:
  "(ctor_donor_step rt this i s = Inl f) =
     (\<not> i < length (tlab_infos_pool (fst s)) \<and> f = Out_of_arena i)"
  by (auto simp: ctor_donor_step_def Let_def)

lemma ctor_donor_step_Inr:
  assumes "ctor_donor_step rt this i s = Inr s'"
  shows "i < length (tlab_infos_pool (fst s))"
    and "num_donor_threads (fst s') = num_donor_threads (fst s)"
    and "donorThreads (fst s') = donorThreads (fst s)"
    and "tlab_infos_pool_next (fst s') = tlab_infos_pool_next (fst s)"
    and "tlab_align_reserve_bytes (fst s') = tlab_align_reserve_bytes (fst s)"
    and "cur_tlab_infos (fst s') = (cur_tlab_infos (fst s))[i := Some i]"
    and "length (tlab_infos_pool (fst s')) = length (tlab_infos_pool (fst s))"
    and "\<And>j. j \<noteq> i \<Longrightarrow> tlab_infos_pool (fst s') ! j = tlab_infos_pool (fst s) ! j"
    and "ti_donor_thread (tlab_infos_pool (fst s') ! i) = donorThreads (fst s) ! i"
    and "ti_top (tlab_infos_pool (fst s') ! i) = ti_original_top (tlab_infos_pool (fst s') ! i)"
    and "ti_last_good_top (tlab_infos_pool (fst s') ! i) = ti_last_good_top (tlab_infos_pool (fst s) ! i)"
  using assms
  by (auto simp: ctor_donor_step_def Let_def initialize_def split: if_splits)

lemma ctor_loop_overrun:
  assumes "length (tlab_infos_pool (fst s)) < num_donor_threads (fst s)"
    and "i \<le> length (tlab_infos_pool (fst s))"
  shows "ctor_loop rt this i s = Inl (Out_of_arena (length (tlab_infos_pool (fst s))))"
  using assms
proof (induction "length (tlab_infos_pool (fst s)) - i" arbitrary: i s)
  case 0
  then have i: "i = length (tlab_infos_pool (fst s))" by simp
  have "ctor_donor_step rt this i s = Inl (Out_of_arena i)"
    using i by (simp add: ctor_donor_step_Inl)
  then show ?case using 0 i ctor_loop_fault [of i s rt this] by simp
next
  case (Suc k)
  then have lt: "i < length (tlab_infos_pool (fst s))" by simp
  then obtain s' where st: "ctor_donor_step rt this i s = Inr s'"
    by (cases "ctor_donor_step rt this i s") (simp_all add: ctor_donor_step_Inl)
  note r = ctor_donor_step_Inr [OF st]
  have "ctor_loop rt this i s = ctor_loop rt this (Suc i) s'"
    using lt Suc.prems(1) st by (simp add: ctor_loop_step)
  moreover have "ctor_loop rt this (Suc i) s' = Inl (Out_of_arena (length (tlab_infos_pool (fst s'))))"
    using Suc.hyps(2) Suc.prems lt r(2) r(7) by (intro Suc.hyps(1)) simp_all
  ultimately show ?case using r(7) by simp
qed

lemma ctor_loop_run:
  assumes "num_donor_threads (fst s) \<le> length (tlab_infos_pool (fst s))"
    and "length (cur_tlab_infos (fst s)) = num_donor_threads (fst s)"
    and "i \<le> num_donor_threads (fst s)"
  shows "\<exists>s'. ctor_loop rt this i s = Inr s' \<and>
      num_donor_threads (fst s') = num_donor_threads (fst s) \<and>
      donorThreads (fst s') = donorThreads (fst s) \<and>
      tlab_infos_pool_next (fst s') = tlab_infos_pool_next (fst s) \<and>
      length (cur_tlab_infos (fst s')) = num_donor_threads (fst s) \<and>
      length (tlab_infos_pool (fst s')) = length (tlab_infos_pool (fst s)) \<and>
      (\<forall>j. i \<le> j \<and> j < num_donor_threads (fst s) \<longrightarrow>
         cur_tlab_infos (fst s') ! j = Some j \<and>
         ti_donor_thread (tlab_infos_pool (fst s') ! j) = donorThreads (fst s) ! j \<and>
         ti_top (tlab_infos_pool (fst s') ! j) = ti_original_top (tlab_infos_pool (fst s') ! j)) \<and>
      (\<forall>j. j < i \<or> num_donor_threads (fst s) \<le> j \<longrightarrow>
         cur_tlab_infos (fst s') ! j = cur_tlab_infos (fst s) ! j \<and>
         tlab_infos_pool (fst s') ! j = tlab_infos_pool (fst s) ! j)"
  using assms
proof (induction "num_donor_threads (fst s) - i" arbitrary: i s)
  case 0
  then have "\<not> i < num_donor_threads (fst s)" by simp
  then have "ctor_loop rt this i s = Inr s" by (rule ctor_loop_done)
  with 0 show ?case by auto
next
  case (Suc k)
  let ?n = "num_donor_threads (fst s)"
  from Suc have lt: "i < ?n" by simp
  with Suc.prems have ilen: "i < length (tlab_infos_pool (fst s))" by simp
  then obtain s1 where st: "ctor_donor_step rt this i s = Inr s1"
    by (cases "ctor_donor_step rt this i s") (simp_all add: ctor_donor_step_Inl)
  note r = ctor_donor_step_Inr [OF st]
  have loop: "ctor_loop rt this i s = ctor_loop rt this (Suc i) s1"
    using lt st by (rule ctor_loop_step)
  have "\<exists>s'. ctor_loop rt this (Suc i) s1 = Inr s' \<and>
      num_donor_threads (fst s') = num_donor_threads (fst s1) \<and>
      donorThreads (fst s') = donorThreads (fst s1) \<and>
      tlab_infos_pool_next (fst s') = tlab_infos_pool_next (fst s1) \<and>
      length (cur_tlab_infos (fst s')) = num_donor_threads (fst s1) \<and>
      length (tlab_infos_pool (fst s')) = length (tlab_infos_pool (fst s1)) \<and>
      (\<forall>j. Suc i \<le> j \<and> j < num_donor_threads (fst s1) \<longrightarrow>
         cur_tlab_infos (fst s') ! j = Some j \<and>
         ti_donor_thread (tlab_infos_pool (fst s') ! j) = donorThreads (fst s1) ! j \<and>
         ti_top (tlab_infos_pool (fst s') ! j) = ti_original_top (tlab_infos_pool (fst s') ! j)) \<and>
      (\<forall>j. j < Suc i \<or> num_donor_threads (fst s1) \<le> j \<longrightarrow>
         cur_tlab_infos (fst s') ! j = cur_tlab_infos (fst s1) ! j \<and>
         tlab_infos_pool (fst s') ! j = tlab_infos_pool (fst s1) ! j)"
    using Suc.hyps(2) Suc.prems lt r(2) r(6) r(7) by (intro Suc.hyps(1)) simp_all
  then obtain s' where run: "ctor_loop rt this (Suc i) s1 = Inr s'"
    and rest: "num_donor_threads (fst s') = num_donor_threads (fst s1) \<and>
      donorThreads (fst s') = donorThreads (fst s1) \<and>
      tlab_infos_pool_next (fst s') = tlab_infos_pool_next (fst s1) \<and>
      length (cur_tlab_infos (fst s')) = num_donor_threads (fst s1) \<and>
      length (tlab_infos_pool (fst s')) = length (tlab_infos_pool (fst s1)) \<and>
      (\<forall>j. Suc i \<le> j \<and> j < num_donor_threads (fst s1) \<longrightarrow>
         cur_tlab_infos (fst s') ! j = Some j \<and>
         ti_donor_thread (tlab_infos_pool (fst s') ! j) = donorThreads (fst s1) ! j \<and>
         ti_top (tlab_infos_pool (fst s') ! j) = ti_original_top (tlab_infos_pool (fst s') ! j)) \<and>
      (\<forall>j. j < Suc i \<or> num_donor_threads (fst s1) \<le> j \<longrightarrow>
         cur_tlab_infos (fst s') ! j = cur_tlab_infos (fst s1) ! j \<and>
         tlab_infos_pool (fst s') ! j = tlab_infos_pool (fst s1) ! j)"
    by blast
  have a: "num_donor_threads (fst s') = ?n" "donorThreads (fst s') = donorThreads (fst s)"
      "tlab_infos_pool_next (fst s') = tlab_infos_pool_next (fst s)"
      "length (cur_tlab_infos (fst s')) = ?n"
      "length (tlab_infos_pool (fst s')) = length (tlab_infos_pool (fst s))"
    using rest r(2) r(3) r(4) r(7) by simp_all
  have hi: "cur_tlab_infos (fst s') ! j = Some j \<and>
         ti_donor_thread (tlab_infos_pool (fst s') ! j) = donorThreads (fst s) ! j \<and>
         ti_top (tlab_infos_pool (fst s') ! j) = ti_original_top (tlab_infos_pool (fst s') ! j)"
    if "Suc i \<le> j" "j < ?n" for j
    using rest that r(2) r(3) by auto
  have lo: "cur_tlab_infos (fst s') ! j = cur_tlab_infos (fst s1) ! j \<and>
         tlab_infos_pool (fst s') ! j = tlab_infos_pool (fst s1) ! j"
    if "j < Suc i \<or> ?n \<le> j" for j
    using rest that r(2) by auto
  have at_i: "cur_tlab_infos (fst s') ! i = Some i \<and>
         ti_donor_thread (tlab_infos_pool (fst s') ! i) = donorThreads (fst s) ! i \<and>
         ti_top (tlab_infos_pool (fst s') ! i) = ti_original_top (tlab_infos_pool (fst s') ! i)"
    using lo [of i] r(6) r(9) r(10) lt Suc.prems(2) by simp
  have hi': "\<forall>j. i \<le> j \<and> j < ?n \<longrightarrow>
         cur_tlab_infos (fst s') ! j = Some j \<and>
         ti_donor_thread (tlab_infos_pool (fst s') ! j) = donorThreads (fst s) ! j \<and>
         ti_top (tlab_infos_pool (fst s') ! j) = ti_original_top (tlab_infos_pool (fst s') ! j)"
  proof (intro allI impI)
    fix j assume j: "i \<le> j \<and> j < ?n"
    show "cur_tlab_infos (fst s') ! j = Some j \<and>
         ti_donor_thread (tlab_infos_pool (fst s') ! j) = donorThreads (fst s) ! j \<and>
         ti_top (tlab_infos_pool (fst s') ! j) = ti_original_top (tlab_infos_pool (fst s') ! j)"
    proof (cases "j = i")
      case True
      with at_i show ?thesis by simp
    next
      case False
      with j have "Suc i \<le> j" "j < ?n" by simp_all
      then show ?thesis by (rule hi)
    qed
  qed
  have lo': "\<forall>j. j < i \<or> ?n \<le> j \<longrightarrow>
         cur_tlab_infos (fst s') ! j = cur_tlab_infos (fst s) ! j \<and>
         tlab_infos_pool (fst s') ! j = tlab_infos_pool (fst s) ! j"
  proof (intro allI impI)
    fix j assume j: "j < i \<or> ?n \<le> j"
    then have ne: "j \<noteq> i" using lt by auto
    from j have "j < Suc i \<or> ?n \<le> j" by auto
    from lo [OF this] show "cur_tlab_infos (fst s') ! j = cur_tlab_infos (fst s) ! j \<and>
         tlab_infos_pool (fst s') ! j = tlab_infos_pool (fst s) ! j"
      using r(6) r(8) [OF ne] ne by simp
  qed
  show ?case using loop run a hi' lo' by simp
qed


lemma getNewTlab_frame:
  "t' \<noteq> t \<Longrightarrow> vm_tlabs (snd (getNewTlabForDonorThread rt t idx vm)) t' = vm_tlabs vm t'"
  by (simp add: getNewTlabForDonorThread_def Let_def clear_before_allocation_def fill_def)

lemma ctor_donor_step_tlabs:
  assumes "ctor_donor_step rt this i s = Inr s'"
  shows "\<And>t. t \<noteq> donorThreads (fst s) ! i \<Longrightarrow> vm_tlabs (snd s') t = vm_tlabs (snd s) t"
    and "ti_start (tlab_infos_pool (fst s') ! i) = tlab_start (vm_tlabs (snd s') (donorThreads (fst s) ! i))"
    and "ti_top (tlab_infos_pool (fst s') ! i) = tlab_top (vm_tlabs (snd s') (donorThreads (fst s) ! i))"
    and "ti_end (tlab_infos_pool (fst s') ! i) = tlab_end (vm_tlabs (snd s') (donorThreads (fst s) ! i))"
  using assms
  by (auto simp: ctor_donor_step_def Let_def initialize_def getNewTlab_frame split: if_splits)

lemma ctor_loop_snapshots:
  assumes "num_donor_threads (fst s) \<le> length (tlab_infos_pool (fst s))"
    and "length (donorThreads (fst s)) = num_donor_threads (fst s)"
    and "distinct (donorThreads (fst s))"
    and "i \<le> num_donor_threads (fst s)"
    and "ctor_loop rt this i s = Inr s'"
    and "length (cur_tlab_infos (fst s)) = num_donor_threads (fst s)"
  shows "(\<forall>t. t \<notin> set (drop i (donorThreads (fst s))) \<longrightarrow> vm_tlabs (snd s') t = vm_tlabs (snd s) t) \<and>
      (\<forall>j. i \<le> j \<and> j < num_donor_threads (fst s) \<longrightarrow>
         ti_start (tlab_infos_pool (fst s') ! j) = tlab_start (vm_tlabs (snd s') (donorThreads (fst s) ! j)) \<and>
         ti_top (tlab_infos_pool (fst s') ! j) = tlab_top (vm_tlabs (snd s') (donorThreads (fst s) ! j)) \<and>
         ti_end (tlab_infos_pool (fst s') ! j) = tlab_end (vm_tlabs (snd s') (donorThreads (fst s) ! j)))"
  using assms
proof (induction "num_donor_threads (fst s) - i" arbitrary: i s)
  case 0
  then have "\<not> i < num_donor_threads (fst s)" by simp
  then have "ctor_loop rt this i s = Inr s" by (rule ctor_loop_done)
  with 0 show ?case by auto
next
  case (Suc k)
  let ?n = "num_donor_threads (fst s)"
  let ?ds = "donorThreads (fst s)"
  from Suc have lt: "i < ?n" by simp
  with Suc.prems have ilen: "i < length (tlab_infos_pool (fst s))" by simp
  then obtain s1 where st: "ctor_donor_step rt this i s = Inr s1"
    by (cases "ctor_donor_step rt this i s") (simp_all add: ctor_donor_step_Inl)
  note r = ctor_donor_step_Inr [OF st]
  note q = ctor_donor_step_tlabs [OF st]
  have loop: "ctor_loop rt this (Suc i) s1 = Inr s'"
    using ctor_loop_step [OF lt st] Suc.prems(5) by simp
  have ih: "(\<forall>t. t \<notin> set (drop (Suc i) (donorThreads (fst s1))) \<longrightarrow>
          vm_tlabs (snd s') t = vm_tlabs (snd s1) t) \<and>
      (\<forall>j. Suc i \<le> j \<and> j < num_donor_threads (fst s1) \<longrightarrow>
         ti_start (tlab_infos_pool (fst s') ! j) = tlab_start (vm_tlabs (snd s') (donorThreads (fst s1) ! j)) \<and>
         ti_top (tlab_infos_pool (fst s') ! j) = tlab_top (vm_tlabs (snd s') (donorThreads (fst s1) ! j)) \<and>
         ti_end (tlab_infos_pool (fst s') ! j) = tlab_end (vm_tlabs (snd s') (donorThreads (fst s1) ! j)))"
    using Suc.hyps(2) Suc.prems(1-4,6) lt r(2) r(3) r(6) r(7) loop by (intro Suc.hyps(1)) simp_all
  have dsi: "drop i ?ds = ?ds ! i # drop (Suc i) ?ds"
    using lt Suc.prems(2) by (simp add: Cons_nth_drop_Suc)
  have notin: "?ds ! i \<notin> set (drop (Suc i) ?ds)"
    using Suc.prems(3) dsi by (metis distinct.simps(2) distinct_drop)
  have keep: "vm_tlabs (snd s') (?ds ! i) = vm_tlabs (snd s1) (?ds ! i)"
    using ih notin r(3) by simp
  have "\<exists>s2. ctor_loop rt this (Suc i) s1 = Inr s2 \<and>
      num_donor_threads (fst s2) = num_donor_threads (fst s1) \<and>
      donorThreads (fst s2) = donorThreads (fst s1) \<and>
      tlab_infos_pool_next (fst s2) = tlab_infos_pool_next (fst s1) \<and>
      length (cur_tlab_infos (fst s2)) = num_donor_threads (fst s1) \<and>
      length (tlab_infos_pool (fst s2)) = length (tlab_infos_pool (fst s1)) \<and>
      (\<forall>j. Suc i \<le> j \<and> j < num_donor_threads (fst s1) \<longrightarrow>
         cur_tlab_infos (fst s2) ! j = Some j \<and>
         ti_donor_thread (tlab_infos_pool (fst s2) ! j) = donorThreads (fst s1) ! j \<and>
         ti_top (tlab_infos_pool (fst s2) ! j) = ti_original_top (tlab_infos_pool (fst s2) ! j)) \<and>
      (\<forall>j. j < Suc i \<or> num_donor_threads (fst s1) \<le> j \<longrightarrow>
         cur_tlab_infos (fst s2) ! j = cur_tlab_infos (fst s1) ! j \<and>
         tlab_infos_pool (fst s2) ! j = tlab_infos_pool (fst s1) ! j)"
    using Suc.prems(1,6) lt r(2) r(6) r(7) by (intro ctor_loop_run) simp_all
  with loop have same: "tlab_infos_pool (fst s') ! i = tlab_infos_pool (fst s1) ! i"
    by auto
  have frame: "\<forall>t. t \<notin> set (drop i ?ds) \<longrightarrow> vm_tlabs (snd s') t = vm_tlabs (snd s) t"
  proof (intro allI impI)
    fix t assume t: "t \<notin> set (drop i ?ds)"
    then have "t \<noteq> ?ds ! i" "t \<notin> set (drop (Suc i) ?ds)" using dsi by auto
    then show "vm_tlabs (snd s') t = vm_tlabs (snd s) t"
      using ih q(1) r(3) by simp
  qed
  have snap: "\<forall>j. i \<le> j \<and> j < ?n \<longrightarrow>
         ti_start (tlab_infos_pool (fst s') ! j) = tlab_start (vm_tlabs (snd s') (?ds ! j)) \<and>
         ti_top (tlab_infos_pool (fst s') ! j) = tlab_top (vm_tlabs (snd s') (?ds ! j)) \<and>
         ti_end (tlab_infos_pool (fst s') ! j) = tlab_end (vm_tlabs (snd s') (?ds ! j))"
  proof (intro allI impI)
    fix j assume j: "i \<le> j \<and> j < ?n"
    show "ti_start (tlab_infos_pool (fst s') ! j) = tlab_start (vm_tlabs (snd s') (?ds ! j)) \<and>
         ti_top (tlab_infos_pool (fst s') ! j) = tlab_top (vm_tlabs (snd s') (?ds ! j)) \<and>
         ti_end (tlab_infos_pool (fst s') ! j) = tlab_end (vm_tlabs (snd s') (?ds ! j))"
    proof (cases "j = i")
      case True
      then show ?thesis using same keep q(2) q(3) q(4) by simp
    next
      case False
      with j have "Suc i \<le> j \<and> j < num_donor_threads (fst s1)" using r(2) by simp
      then show ?thesis using ih r(3) by simp
    qed
  qed
  from frame snap show ?case by blast
qed


lemma ctor_unfold:
  "donor_threads \<noteq> [] \<Longrightarrow>
   HSAILAllocationInfo_ctor rt this uninit donor_threads dimX allocBytesPerWorkitem vm =
     ctor_loop rt this 0
       (\<lparr>donorThreads = donor_threads,
         num_donor_threads = length donor_threads,
         tlab_align_reserve_bytes = alignment_reserve_in_bytes rt,
         cur_tlab_infos = replicate (length donor_threads) None,
         tlab_infos_pool = map uninit
           [0..<max_tlab_infos (tlab_compute_size rt (vm_heap vm) (vm_tlabs vm (donor_threads ! 0)) 0)
                  (unsafe_max_tlab_alloc rt (vm_heap vm) (donor_threads ! 0)) (length donor_threads)],
         tlab_infos_pool_next = length donor_threads\<rparr>, vm)"
  by (simp add: HSAILAllocationInfo_ctor_def Let_def)

lemma ctor_overrun:
  assumes "donor_threads \<noteq> []"
    and "max_tlab_infos (tlab_compute_size rt (vm_heap vm) (vm_tlabs vm (donor_threads ! 0)) 0)
           (unsafe_max_tlab_alloc rt (vm_heap vm) (donor_threads ! 0)) (length donor_threads)
         < length donor_threads"
  shows "HSAILAllocationInfo_ctor rt this uninit donor_threads dimX allocBytesPerWorkitem vm =
     Inl (Out_of_arena
       (max_tlab_infos (tlab_compute_size rt (vm_heap vm) (vm_tlabs vm (donor_threads ! 0)) 0)
           (unsafe_max_tlab_alloc rt (vm_heap vm) (donor_threads ! 0)) (length donor_threads)))"
  unfolding ctor_unfold [OF assms(1)]
  using assms(2) by (subst ctor_loop_overrun) simp_all

text \<open>
  Claim C2 at its failing input. Nine donor threads, a computed region size of 1000 and
  8000 free bytes give an arena of \<open>min (8000 / 1000) (64 * 9) = 8\<close> slots; the
  constructor then writes the region of the ninth thread to slot 8, which the arena
  does not have.
\<close>

theorem ctor_overruns_small_arena:
  "HSAILAllocationInfo_ctor example_runtime 0 uninit_example [0, 1, 2, 3, 4, 5, 6, 7, 8] 1 0
     example_vm = Inl (Out_of_arena 8)"
proof -
  let ?ds = "[0, 1, 2, 3, 4, 5, 6, 7, 8] :: JavaThread list"
  have ne: "?ds \<noteq> []" by simp
  have m: "max_tlab_infos
      (tlab_compute_size example_runtime (vm_heap example_vm) (vm_tlabs example_vm (?ds ! 0)) 0)
      (unsafe_max_tlab_alloc example_runtime (vm_heap example_vm) (?ds ! 0)) (length ?ds) = 8"
    by (simp add: example_runtime_def max_tlab_infos_def)
  have lt: "max_tlab_infos
      (tlab_compute_size example_runtime (vm_heap example_vm) (vm_tlabs example_vm (?ds ! 0)) 0)
      (unsafe_max_tlab_alloc example_runtime (vm_heap example_vm) (?ds ! 0)) (length ?ds)
      < length ?ds"
    unfolding m by simp
  from ctor_overrun [OF ne lt, of 0 uninit_example 1 0] show ?thesis
    unfolding m .
qed

text \<open>
  Claim C9 at its failing input, the overrun of C2 with a heap that has nothing left.
  Nine donor threads with empty buffers, a computed region size of 1000, 8000 free
  bytes and an allocator that returns \<open>NULL\<close>: priming fails for every thread, the arena
  has 8 slots, and the constructor writes the unprimed region of the ninth thread to
  slot 8, which the arena does not have, so that thread's entry is not recorded.
\<close>

theorem ctor_overruns_with_exhausted_heap:
  "\<not> fst (getNewTlabForDonorThread exhausted_runtime 8 8 example_vm) \<and>
   HSAILAllocationInfo_ctor exhausted_runtime 0 uninit_example [0, 1, 2, 3, 4, 5, 6, 7, 8] 1 0
     example_vm = Inl (Out_of_arena 8)"
proof -
  let ?ds = "[0, 1, 2, 3, 4, 5, 6, 7, 8] :: JavaThread list"
  have ne: "?ds \<noteq> []" by simp
  have m: "max_tlab_infos
      (tlab_compute_size exhausted_runtime (vm_heap example_vm) (vm_tlabs example_vm (?ds ! 0)) 0)
      (unsafe_max_tlab_alloc exhausted_runtime (vm_heap example_vm) (?ds ! 0)) (length ?ds) = 8"
    by (simp add: exhausted_runtime_def example_runtime_def max_tlab_infos_def)
  have lt: "max_tlab_infos
      (tlab_compute_size exhausted_runtime (vm_heap example_vm) (vm_tlabs example_vm (?ds ! 0)) 0)
      (unsafe_max_tlab_alloc exhausted_runtime (vm_heap example_vm) (?ds ! 0)) (length ?ds)
      < length ?ds"
    unfolding m by simp
  have g: "\<not> fst (getNewTlabForDonorThread exhausted_runtime 8 8 example_vm)"
    by (simp add: getNewTlabForDonorThread_def Let_def exhausted_runtime_def
        example_runtime_def example_vm_def clear_before_allocation_def)
  from ctor_overrun [OF ne lt, of 0 uninit_example 1 0] have
    "HSAILAllocationInfo_ctor exhausted_runtime 0 uninit_example ?ds 1 0 example_vm
       = Inl (Out_of_arena 8)"
    unfolding m .
  with g show ?thesis by simp
qed

text \<open>
  When the arena does hold a slot for each donor thread, priming decides nothing about
  the outcome. Whatever the size computation and the heap allocator answer, the
  constructor of a non-empty donor set returns an object: \<open>_cur_tlab_infos\<close> has one
  entry per donor thread, entry \<open>i\<close> points to slot \<open>i\<close>, and slot \<open>i\<close> belongs to the
  thread \<open>i\<close>. When the threads are distinct, slot \<open>i\<close> is the snapshot of that thread's
  buffer as the constructor left it, so a thread that could not be primed has its
  unprimed buffer recorded. \<open>getNewTlabForDonorThread\<close> reports failure exactly when the
  computed size is zero or the heap returns \<open>NULL\<close>.
\<close>

lemma ctor_records_every_donor:
  assumes "donor_threads \<noteq> []"
    and "length donor_threads \<le>
         max_tlab_infos (tlab_compute_size rt (vm_heap vm) (vm_tlabs vm (donor_threads ! 0)) 0)
           (unsafe_max_tlab_alloc rt (vm_heap vm) (donor_threads ! 0)) (length donor_threads)"
  shows "(\<exists>info vm'.
        HSAILAllocationInfo_ctor rt this uninit donor_threads dimX allocBytesPerWorkitem vm
          = Inr (info, vm') \<and>
        length (cur_tlab_infos info) = length donor_threads \<and>
        (\<forall>i<length donor_threads.
           cur_tlab_infos info ! i = Some i \<and>
           ti_donor_thread (tlab_infos_pool info ! i) = donor_threads ! i) \<and>
        (distinct donor_threads \<longrightarrow>
           (\<forall>i<length donor_threads.
              ti_start (tlab_infos_pool info ! i) = tlab_start (vm_tlabs vm' (donor_threads ! i)) \<and>
              ti_top (tlab_infos_pool info ! i) = tlab_top (vm_tlabs vm' (donor_threads ! i)) \<and>
              ti_original_top (tlab_infos_pool info ! i) = tlab_top (vm_tlabs vm' (donor_threads ! i)) \<and>
              ti_end (tlab_infos_pool info ! i) = tlab_end (vm_tlabs vm' (donor_threads ! i))))) \<and>
     (\<forall>t idx vm0.
        fst (getNewTlabForDonorThread rt t idx vm0) =
          (tlab_compute_size rt (vm_heap vm0) (tlab_clear_before_allocation rt (vm_tlabs vm0 t)) 0 \<noteq> 0 \<and>
           fst (allocate_new_tlab rt (vm_heap vm0)
                 (tlab_compute_size rt (vm_heap vm0)
                    (tlab_clear_before_allocation rt (vm_tlabs vm0 t)) 0)) \<noteq> 0))"
proof -
  let ?n = "length donor_threads"
  let ?s0 = "(\<lparr>donorThreads = donor_threads,
         num_donor_threads = ?n,
         tlab_align_reserve_bytes = alignment_reserve_in_bytes rt,
         cur_tlab_infos = replicate ?n None,
         tlab_infos_pool = map uninit
           [0..<max_tlab_infos (tlab_compute_size rt (vm_heap vm) (vm_tlabs vm (donor_threads ! 0)) 0)
                  (unsafe_max_tlab_alloc rt (vm_heap vm) (donor_threads ! 0)) ?n],
         tlab_infos_pool_next = ?n\<rparr>, vm)"
  have p1: "num_donor_threads (fst ?s0) \<le> length (tlab_infos_pool (fst ?s0))"
    using assms(2) by simp
  have p2: "length (cur_tlab_infos (fst ?s0)) = num_donor_threads (fst ?s0)" by simp
  have p3: "0 \<le> num_donor_threads (fst ?s0)" by simp
  from ctor_loop_run [OF p1 p2 p3, of rt this]
  obtain s' where run: "ctor_loop rt this 0 ?s0 = Inr s'"
    and len: "length (cur_tlab_infos (fst s')) = ?n"
    and ent: "\<forall>j. 0 \<le> j \<and> j < num_donor_threads (fst ?s0) \<longrightarrow>
         cur_tlab_infos (fst s') ! j = Some j \<and>
         ti_donor_thread (tlab_infos_pool (fst s') ! j) = donorThreads (fst ?s0) ! j \<and>
         ti_top (tlab_infos_pool (fst s') ! j) = ti_original_top (tlab_infos_pool (fst s') ! j)"
    by auto
  have ctor: "HSAILAllocationInfo_ctor rt this uninit donor_threads dimX allocBytesPerWorkitem vm
      = Inr (fst s', snd s')"
    using run ctor_unfold [OF assms(1), of rt this uninit dimX allocBytesPerWorkitem vm] by simp
  have e1: "\<forall>i<?n. cur_tlab_infos (fst s') ! i = Some i \<and>
           ti_donor_thread (tlab_infos_pool (fst s') ! i) = donor_threads ! i"
    using ent by simp
  have e2: "distinct donor_threads \<longrightarrow>
           (\<forall>i<?n.
              ti_start (tlab_infos_pool (fst s') ! i) = tlab_start (vm_tlabs (snd s') (donor_threads ! i)) \<and>
              ti_top (tlab_infos_pool (fst s') ! i) = tlab_top (vm_tlabs (snd s') (donor_threads ! i)) \<and>
              ti_original_top (tlab_infos_pool (fst s') ! i) = tlab_top (vm_tlabs (snd s') (donor_threads ! i)) \<and>
              ti_end (tlab_infos_pool (fst s') ! i) = tlab_end (vm_tlabs (snd s') (donor_threads ! i)))"
  proof
    assume d: "distinct donor_threads"
    have q2: "length (donorThreads (fst ?s0)) = num_donor_threads (fst ?s0)" by simp
    have q3: "distinct (donorThreads (fst ?s0))" using d by simp
    from ctor_loop_snapshots [OF p1 q2 q3 p3 run p2] ent
    show "\<forall>i<?n.
              ti_start (tlab_infos_pool (fst s') ! i) = tlab_start (vm_tlabs (snd s') (donor_threads ! i)) \<and>
              ti_top (tlab_infos_pool (fst s') ! i) = tlab_top (vm_tlabs (snd s') (donor_threads ! i)) \<and>
              ti_original_top (tlab_infos_pool (fst s') ! i) = tlab_top (vm_tlabs (snd s') (donor_threads ! i)) \<and>
              ti_end (tlab_infos_pool (fst s') ! i) = tlab_end (vm_tlabs (snd s') (donor_threads ! i))"
      by simp
  qed
  have g: "\<forall>t idx vm0.
        fst (getNewTlabForDonorThread rt t idx vm0) =
          (tlab_compute_size rt (vm_heap vm0) (tlab_clear_before_allocation rt (vm_tlabs vm0 t)) 0 \<noteq> 0 \<and>
           fst (allocate_new_tlab rt (vm_heap vm0)
                 (tlab_compute_size rt (vm_heap vm0)
                    (tlab_clear_before_allocation rt (vm_tlabs vm0 t)) 0)) \<noteq> 0)"
    by (simp add: getNewTlabForDonorThread_def Let_def clear_before_allocation_def)
  from ctor len e1 e2 g show ?thesis by blast
qed

lemma postKernelCleanup_pool_nth:
  assumes "i < tlab_infos_pool_next info" and "i < length (tlab_infos_pool info)"
  shows "\<exists>c. postKernelCleanup rt info vm = Inr c \<and>
      tlab_infos_pool (c_info c) ! i = rolled_back (tlab_infos_pool info ! i)"
proof -
  from postKernelCleanup_run [of rt info vm]
  obtain c where run: "postKernelCleanup rt info vm = Inr c"
    and info: "c_info c = info\<lparr>tlab_infos_pool_next :=
           min (tlab_infos_pool_next info) (length (tlab_infos_pool info)),
        tlab_infos_pool := map rolled_back
             (take (min (tlab_infos_pool_next info) (length (tlab_infos_pool info)))
               (tlab_infos_pool info))
           @ drop (min (tlab_infos_pool_next info) (length (tlab_infos_pool info)))
               (tlab_infos_pool info)\<rparr>"
    by blast
  have "tlab_infos_pool (c_info c) ! i = rolled_back (tlab_infos_pool info ! i)"
    using info assms by (simp add: nth_append)
  with run show ?thesis by blast
qed

text \<open>
  Claim C10. After every call of \<open>initialize\<close>, whatever its arguments, both \<open>top\<close> and
  \<open>originalTop\<close> are the given \<open>top\<close>, and \<open>lastGoodTop\<close> is what the slot held before.
  \<open>postKernelCleanup\<close> reads it all the same: when the region was initialized with a
  non-null start, its \<open>top\<close> has since moved past \<open>end\<close> and the loop reaches its slot, the
  cleanup sets \<open>top\<close> to that earlier value.
\<close>

theorem initialize_leaves_last_good_top:
  "ti_top (initialize r start top' e donorThread allocInfo) = top' \<and>
   ti_original_top (initialize r start top' e donorThread allocInfo) = top' \<and>
   ti_last_good_top (initialize r start top' e donorThread allocInfo) = ti_last_good_top r \<and>
   (i < tlab_infos_pool_next info \<and>
    i < length (tlab_infos_pool info) \<and>
    tlab_infos_pool info ! i
      = (initialize r start top' e donorThread allocInfo)\<lparr>ti_top := gpu_top\<rparr> \<and>
    start \<noteq> 0 \<and>
    e < gpu_top \<longrightarrow>
      (\<exists>c. postKernelCleanup rt info vm = Inr c \<and>
         ti_top (tlab_infos_pool (c_info c) ! i) = ti_last_good_top r))"
proof -
  have init_facts: "ti_top (initialize r start top' e donorThread allocInfo) = top' \<and>
     ti_original_top (initialize r start top' e donorThread allocInfo) = top' \<and>
     ti_last_good_top (initialize r start top' e donorThread allocInfo) = ti_last_good_top r"
    by (simp add: initialize_def)
  have cleanup_fact: "\<exists>c. postKernelCleanup rt info vm = Inr c \<and>
         ti_top (tlab_infos_pool (c_info c) ! i) = ti_last_good_top r"
    if h: "i < tlab_infos_pool_next info" "i < length (tlab_infos_pool info)"
      "tlab_infos_pool info ! i
         = (initialize r start top' e donorThread allocInfo)\<lparr>ti_top := gpu_top\<rparr>"
      "start \<noteq> 0" "e < gpu_top"
  proof -
    from postKernelCleanup_pool_nth [OF h(1,2), of rt vm]
    obtain c where run: "postKernelCleanup rt info vm = Inr c"
      and nth: "tlab_infos_pool (c_info c) ! i = rolled_back (tlab_infos_pool info ! i)"
      by blast
    have "ti_top (tlab_infos_pool (c_info c) ! i) = ti_last_good_top r"
      unfolding nth h(3) using h(4,5)
      by (simp add: rolled_back_def overflowed_region_def initialize_def)
    with run show ?thesis by blast
  qed
  from init_facts cleanup_fact show ?thesis by blast
qed

text \<open>
  The theorem of C10 at the call that a failed priming makes, with null arguments, and
  at a slot of a fresh arena whose region then overflowed.
\<close>

theorem initialize_leaves_last_good_top_witness:
  "ti_top (initialize (uninit_example 0) 0 0 0 7 0) = 0 \<and>
   ti_original_top (initialize (uninit_example 0) 0 0 0 7 0) = 0 \<and>
   ti_last_good_top (initialize (uninit_example 0) 0 0 0 7 0) = 0xBAADF00D \<and>
   ti_last_good_top (initialize (uninit_example 0) 0x1000 0x1000 0x1080 7 0) = 0xBAADF00D \<and>
   (\<exists>c. postKernelCleanup example_runtime stale_info example_vm = Inr c \<and>
      ti_top (tlab_infos_pool (c_info c) ! 0) = 0xBAADF00D)"
proof -
  have a: "ti_top (initialize (uninit_example 0) 0 0 0 7 0) = 0 \<and>
      ti_original_top (initialize (uninit_example 0) 0 0 0 7 0) = 0 \<and>
      ti_last_good_top (initialize (uninit_example 0) 0 0 0 7 0) = 0xBAADF00D"
    using initialize_leaves_last_good_top [where r = "uninit_example 0" and start = 0
        and top' = 0 and e = 0 and donorThread = 7 and allocInfo = 0]
    by (simp add: uninit_example_def)
  have b: "ti_last_good_top (initialize (uninit_example 0) 0x1000 0x1000 0x1080 7 0) = 0xBAADF00D \<and>
      (\<exists>c. postKernelCleanup example_runtime stale_info example_vm = Inr c \<and>
         ti_top (tlab_infos_pool (c_info c) ! 0) = 0xBAADF00D)"
    using initialize_leaves_last_good_top [where i = 0 and info = stale_info
        and r = "uninit_example 0" and start = "0x1000" and top' = "0x1000" and e = "0x1080"
        and donorThread = 7 and allocInfo = 0 and gpu_top = "0x1100"
        and rt = example_runtime and vm = example_vm]
    by (simp add: stale_info_def uninit_example_def)
  from a b show ?thesis by simp
qed

section \<open>Properties of the CUDA driver interface\<close>
























text \<open>
  Claim C5, as amended. \<open>execute_kernel_from_vm\<close> with an encoded return-type size of 0
  makes no call that allocates, frees or copies a device return buffer, whatever the
  driver answers. \<open>execute_warp\<close> never allocates one, and for \<open>T_VOID\<close> it copies nothing
  from the device.
\<close>

theorem void_return_buffer_calls:
  "length (filter is_memalloc
      (cuda_calls (execute_kernel_from_vm drv kernel' parametersAndReturnValueBuffer
         parametersAndReturnValueBufferSize 0))) = 0 \<and>
   length (filter is_memfree
      (cuda_calls (execute_kernel_from_vm drv kernel' parametersAndReturnValueBuffer
         parametersAndReturnValueBufferSize 0))) = 0 \<and>
   length (filter is_memcpy_dtoh
      (cuda_calls (execute_kernel_from_vm drv kernel' parametersAndReturnValueBuffer
         parametersAndReturnValueBufferSize 0))) = 0 \<and>
   length (filter is_memalloc (warp_calls (execute_warp drv dimX dimY dimZ kernel' ptxka ret))) = 0 \<and>
   (ret_type ptxka = T_VOID \<longrightarrow>
      length (filter is_memcpy_dtoh
        (warp_calls (execute_warp drv dimX dimY dimZ kernel' ptxka ret))) = 0)"
proof -
  have a: "filter is_memalloc (cuda_calls (execute_kernel_from_vm drv kernel'
        parametersAndReturnValueBuffer parametersAndReturnValueBufferSize 0)) = []"
    by (simp add: execute_kernel_from_vm_def throw_and_post_jvmti_exception_def Let_def)
  have b: "filter is_memfree (cuda_calls (execute_kernel_from_vm drv kernel'
        parametersAndReturnValueBuffer parametersAndReturnValueBufferSize 0)) = []"
    by (simp add: execute_kernel_from_vm_def throw_and_post_jvmti_exception_def Let_def)
  have c: "filter is_memcpy_dtoh (cuda_calls (execute_kernel_from_vm drv kernel'
        parametersAndReturnValueBuffer parametersAndReturnValueBufferSize 0)) = []"
    by (simp add: execute_kernel_from_vm_def throw_and_post_jvmti_exception_def Let_def)
  have d: "filter is_memalloc (warp_calls (execute_warp drv dimX dimY dimZ kernel' ptxka ret)) = []"
    by (simp add: execute_warp_def Let_def split: option.splits)
  have e: "ret_type ptxka = T_VOID \<Longrightarrow>
      filter is_memcpy_dtoh (warp_calls (execute_warp drv dimX dimY dimZ kernel' ptxka ret)) = []"
    by (simp add: execute_warp_def Let_def return_copy_def)
  from a b c d e show ?thesis by simp
qed

text \<open>The theorem of C5 at a void kernel and a driver whose calls all succeed.\<close>

theorem void_return_buffer_calls_witness:
  "ret_type void_arguments = T_VOID \<and>
   length (filter is_memcpy_dtoh
     (warp_calls (execute_warp responsive_driver 1 1 1 0x7000 void_arguments (Jint 0)))) = 0 \<and>
   length (filter is_memfree
     (cuda_calls (execute_kernel_from_vm responsive_driver 0x7000 0x600000 16 0))) = 0"
  using void_return_buffer_calls [of responsive_driver "0x7000" "0x600000" 16 1 1 1 void_arguments "Jint 0"]
  by (simp add: void_arguments_def)

text \<open>
  Claim C5 as stated fails for \<open>execute_kernel\<close>: with a \<open>T_VOID\<close> return type and a driver
  whose calls all succeed, the free of the device return buffer is called once.
\<close>

theorem execute_kernel_void_frees_counterexample:
  "\<not> (length (filter is_memalloc
          (warp_calls (execute_kernel responsive_driver 0x7000 void_arguments (Jint 0)))) = 0 \<and>
       length (filter is_memfree
          (warp_calls (execute_kernel responsive_driver 0x7000 void_arguments (Jint 0)))) = 0)"
  by (simp add: execute_kernel_def execute_warp_def Let_def return_copy_def
      responsive_driver_def void_arguments_def)

text \<open>
  Claim C6 at its failing input. \<open>execute_kernel_from_vm\<close> with an encoded return-type
  size of 4, an \<open>int\<close>, and a driver whose calls all succeed allocates 4 bytes on the
  device and then copies \<open>T_LONG_BYTE_SIZE = 8\<close> bytes from them.
\<close>

theorem int_return_copies_eight_bytes:
  "cuda_calls (execute_kernel_from_vm responsive_driver 0x7000 0x600000 16 4) =
     [Call_memalloc 4, Call_launch_kernel 1 1 1, Call_ctx_synchronize,
      Call_memcpy_dtoh 0x500000 8, Call_memfree 0x500000, Call_ctx_destroy] \<and>
   pending_exception (execute_kernel_from_vm responsive_driver 0x7000 0x600000 16 4) = None"
  by (simp add: execute_kernel_from_vm_def Let_def responsive_driver_def T_LONG_BYTE_SIZE_def
      word_sless_alt)

text \<open>
  The sizes of the copy in the two functions, for the executions that succeed: by type
  in \<open>execute_warp\<close>, which copies nothing for an object; in \<open>execute_kernel_from_vm\<close>
  the width of a pointer for an object and 8 bytes for every primitive.
\<close>

lemma execute_warp_copy_sizes:
  assumes "warp_ok (execute_warp drv dimX dimY dimZ kernel' ptxka ret)"
  shows "filter is_memcpy_dtoh (warp_calls (execute_warp drv dimX dimY dimZ kernel' ptxka ret)) =
     (case ret_type ptxka of
        T_INT \<Rightarrow> [Call_memcpy_dtoh (dev_return_value ptxka) 4]
      | T_BOOLEAN \<Rightarrow> [Call_memcpy_dtoh (dev_return_value ptxka) 4]
      | T_FLOAT \<Rightarrow> [Call_memcpy_dtoh (dev_return_value ptxka) 4]
      | T_DOUBLE \<Rightarrow> [Call_memcpy_dtoh (dev_return_value ptxka) 8]
      | T_LONG \<Rightarrow> [Call_memcpy_dtoh (dev_return_value ptxka) 8]
      | _ \<Rightarrow> [])"
  using assms
  by (cases "ret_type ptxka")
     (auto simp: execute_warp_def Let_def return_copy_def T_INT_BYTE_SIZE_def
        T_FLOAT_BYTE_SIZE_def T_DOUBLE_BYTE_SIZE_def T_LONG_BYTE_SIZE_def split: if_splits)

lemma execute_kernel_from_vm_copy_sizes:
  assumes "pending_exception (execute_kernel_from_vm drv kernel' buf n encodedReturnTypeSize) = None"
  shows "filter is_memcpy_dtoh (cuda_calls (execute_kernel_from_vm drv kernel' buf n encodedReturnTypeSize)) =
     (if encodedReturnTypeSize <s 0 then [Call_memcpy_dtoh (snd (cu_memalloc drv)) T_OBJECT_BYTE_SIZE]
      else if 0 <s encodedReturnTypeSize then [Call_memcpy_dtoh (snd (cu_memalloc drv)) T_LONG_BYTE_SIZE]
      else [])"
  using assms
  by (auto simp: execute_kernel_from_vm_def Let_def throw_and_post_jvmti_exception_def
      split: if_splits)

end
